theory Spec2Isabelle
  imports Complex_Main "HOL-Library.Sublist"
begin

section \<open>Python strings\<close>

text \<open>
  A Python \<open>str\<close> is modelled as a \<open>string\<close>: a list of characters with code points
  0 to 255 (the Latin-1 range).  The helpers below are the \<open>str\<close> methods the
  grading engine and the reward module call, with Python's behaviour on that range.
\<close>

definition code_point :: "char \<Rightarrow> nat" where
  "code_point c = of_char c"

text \<open>\<open>str.isspace\<close> on one character: TAB to CR, FS to US, space, NEL and NBSP.\<close>

definition isspace :: "char \<Rightarrow> bool" where
  "isspace c =
     (let n = code_point c
      in (9 \<le> n \<and> n \<le> 13) \<or> (28 \<le> n \<and> n \<le> 32) \<or> n = 133 \<or> n = 160)"

text \<open>\<open>s.strip()\<close>: leading and trailing whitespace removed.\<close>

definition strip :: "string \<Rightarrow> string" where
  "strip s = rev (dropWhile isspace (rev (dropWhile isspace s)))"

text \<open>\<open>s.lower()\<close>: \<open>A\<close> to \<open>Z\<close> and the Latin-1 capitals (all of 0xC0 to 0xDE but the
  multiplication sign 0xD7) move up by 32.\<close>

definition lower_char :: "char \<Rightarrow> char" where
  "lower_char c =
     (let n = code_point c
      in if (65 \<le> n \<and> n \<le> 90) \<or> (192 \<le> n \<and> n \<le> 222 \<and> n \<noteq> 215)
         then char_of (n + 32) else c)"

definition lower :: "string \<Rightarrow> string" where
  "lower s = map lower_char s"

text \<open>\<open>sub in s\<close> on strings.\<close>

fun contains :: "string \<Rightarrow> string \<Rightarrow> bool" where
  "contains [] sub = (sub = [])"
| "contains (c # cs) sub = (prefix sub (c # cs) \<or> contains cs sub)"

text \<open>\<open>s.split()\<close> without arguments: the maximal runs of non-whitespace characters.
  The first argument is the word being read, reversed.\<close>

fun split_ws_from :: "string \<Rightarrow> string \<Rightarrow> string list" where
  "split_ws_from cur [] = (if cur = [] then [] else [rev cur])"
| "split_ws_from cur (c # cs) =
     (if isspace c
      then (if cur = [] then split_ws_from [] cs else rev cur # split_ws_from [] cs)
      else split_ws_from (c # cur) cs)"

definition split_ws :: "string \<Rightarrow> string list" where
  "split_ws s = split_ws_from [] s"

text \<open>\<open>s.split("\n\n")\<close>: the pieces between non-overlapping blank-line separators,
  empty pieces included.\<close>

fun split_blank_from :: "string \<Rightarrow> string \<Rightarrow> string list" where
  "split_blank_from cur [] = [rev cur]"
| "split_blank_from cur [c] = [rev (c # cur)]"
| "split_blank_from cur (c # d # cs) =
     (if c = CHR 0x0A \<and> d = CHR 0x0A
      then rev cur # split_blank_from [] cs
      else split_blank_from (c # cur) (d # cs))"

definition split_blank :: "string \<Rightarrow> string list" where
  "split_blank s = split_blank_from [] s"

text \<open>\<open>sep.join(parts)\<close>.\<close>

fun join :: "string \<Rightarrow> string list \<Rightarrow> string" where
  "join sep [] = []"
| "join sep [x] = x"
| "join sep (x # y # ys) = x @ sep @ join sep (y # ys)"

text \<open>\<open>str(n)\<close> for a non-negative integer, as an f-string prints it.\<close>

definition digit_char :: "nat \<Rightarrow> char" where
  "digit_char d = char_of (48 + d)"

fun str_nat :: "nat \<Rightarrow> string" where
  "str_nat n = (if n < 10 then [digit_char n] else str_nat (n div 10) @ [digit_char (n mod 10)])"

declare str_nat.simps [simp del]

section \<open>Errors\<close>

text \<open>The exceptions the modelled code can raise.  A function that can raise returns
  \<open>Inl\<close> of the error.\<close>

datatype py_error = KeyError | AttributeError | ZeroDivisionError

section \<open>Binary64 arithmetic\<close>

text \<open>
  Python's \<open>float\<close> is the IEEE 754 binary64 format.  The dimension scorers work on whole
  numbers from 0 to 100 and only compare them, which the real numbers render exactly.
  The aggregation of the scores and the reward module multiply, add and divide; there
  every operation is read as the hardware performs it: the exact result rounded to the
  nearest double, a tie going to the double with the even significand.

  A finite double is given by its value, a rational number; the two zeros are one value
  (they compare equal, and a division by either raises).  The unit in the last place of
  a number below \<open>2 ^ 53 * 2 ^ e\<close> is \<open>2 ^ e\<close>, from \<open>e = -1074\<close> for the subnormal
  numbers up to \<open>e = 971\<close>; \<open>ulp_exponent\<close> searches this exponent upwards.
\<close>

text \<open>The nearest integer, a tie going to the even one.\<close>

definition round_half_even :: "'a::floor_ceiling \<Rightarrow> int" where
  "round_half_even x =
     (let f = \<lfloor>x\<rfloor>; d = x - of_int f
      in if d < 1 / 2 then f else if 1 / 2 < d then f + 1 else if even f then f else f + 1)"

datatype f64 = Finite rat | PosInf | NegInf | NaN

fun ulp_exponent :: "nat \<Rightarrow> rat \<Rightarrow> int \<Rightarrow> int" where
  "ulp_exponent 0 a e = e"
| "ulp_exponent (Suc fuel) a e =
     (if a < 2 ^ 53 * 2 powi e then e else ulp_exponent fuel a (e + 1))"

text \<open>The double nearest to a rational number; beyond the largest double, an infinity.\<close>

definition round_f64 :: "rat \<Rightarrow> f64" where
  "round_f64 x =
     (let e = ulp_exponent 2045 \<bar>x\<bar> (- 1074);
          y = of_int (round_half_even (x / 2 powi e)) * 2 powi e
      in if 2 ^ 1024 \<le> \<bar>y\<bar> then (if 0 < x then PosInf else NegInf) else Finite y)"

text \<open>Addition, multiplication and the quotient by a divisor that is not zero.\<close>

fun fadd :: "f64 \<Rightarrow> f64 \<Rightarrow> f64" where
  "fadd (Finite a) (Finite b) = round_f64 (a + b)"
| "fadd NaN y = NaN"
| "fadd x NaN = NaN"
| "fadd PosInf NegInf = NaN"
| "fadd NegInf PosInf = NaN"
| "fadd PosInf y = PosInf"
| "fadd x PosInf = PosInf"
| "fadd NegInf y = NegInf"
| "fadd x NegInf = NegInf"

definition inf_times :: "bool \<Rightarrow> rat \<Rightarrow> f64" where
  "inf_times positive b =
     (if b = 0 then NaN else if (0 < b) = positive then PosInf else NegInf)"

fun fmul :: "f64 \<Rightarrow> f64 \<Rightarrow> f64" where
  "fmul (Finite a) (Finite b) = round_f64 (a * b)"
| "fmul NaN y = NaN"
| "fmul x NaN = NaN"
| "fmul PosInf (Finite b) = inf_times True b"
| "fmul NegInf (Finite b) = inf_times False b"
| "fmul (Finite a) PosInf = inf_times True a"
| "fmul (Finite a) NegInf = inf_times False a"
| "fmul PosInf PosInf = PosInf"
| "fmul NegInf NegInf = PosInf"
| "fmul PosInf NegInf = NegInf"
| "fmul NegInf PosInf = NegInf"

fun fquot :: "f64 \<Rightarrow> f64 \<Rightarrow> f64" where
  "fquot (Finite a) (Finite b) = (if b = 0 then NaN else round_f64 (a / b))"
| "fquot NaN y = NaN"
| "fquot x NaN = NaN"
| "fquot PosInf (Finite b) = inf_times True b"
| "fquot NegInf (Finite b) = inf_times False b"
| "fquot (Finite a) y = Finite 0"
| "fquot x y = NaN"

text \<open>\<open>a / b\<close>: Python raises \<open>ZeroDivisionError\<close> for a zero divisor.\<close>

definition fdiv :: "f64 \<Rightarrow> f64 \<Rightarrow> py_error + f64" where
  "fdiv a b = (if b = Finite 0 then Inl ZeroDivisionError else Inr (fquot a b))"

text \<open>\<open>a < b\<close>; a comparison with NaN is false.\<close>

fun flt :: "f64 \<Rightarrow> f64 \<Rightarrow> bool" where
  "flt (Finite a) (Finite b) = (a < b)"
| "flt NaN y = False"
| "flt x NaN = False"
| "flt NegInf NegInf = False"
| "flt NegInf y = True"
| "flt x PosInf = (x \<noteq> PosInf)"
| "flt x y = False"

text \<open>\<open>-a\<close>, \<open>a - b\<close> and \<open>fabs(a)\<close>.\<close>

fun fneg :: "f64 \<Rightarrow> f64" where
  "fneg (Finite a) = Finite (- a)"
| "fneg PosInf = NegInf"
| "fneg NegInf = PosInf"
| "fneg NaN = NaN"

definition fsub :: "f64 \<Rightarrow> f64 \<Rightarrow> f64" where
  "fsub a b = fadd a (fneg b)"

fun fabs :: "f64 \<Rightarrow> f64" where
  "fabs (Finite a) = Finite \<bar>a\<bar>"
| "fabs PosInf = PosInf"
| "fabs NegInf = PosInf"
| "fabs NaN = NaN"

text \<open>The builtins \<open>min(a, b)\<close> and \<open>max(a, b)\<close> keep the first argument unless the
  second is smaller, respectively larger.\<close>

definition fmin :: "f64 \<Rightarrow> f64 \<Rightarrow> f64" where
  "fmin a b = (if flt b a then b else a)"

definition fmax :: "f64 \<Rightarrow> f64 \<Rightarrow> f64" where
  "fmax a b = (if flt a b then b else a)"

text \<open>An \<open>int\<close> as a float, \<open>n / m\<close> on two non-negative ints with \<open>m\<close> not zero (the
  exact quotient, rounded once), and a decimal literal such as \<open>0.15\<close>, written
  \<open>decimal 15 2\<close>.\<close>

definition f64_of_nat :: "nat \<Rightarrow> f64" where
  "f64_of_nat n = round_f64 (of_nat n)"

definition int_quot :: "nat \<Rightarrow> nat \<Rightarrow> f64" where
  "int_quot n m = round_f64 (of_nat n / of_nat m)"

definition decimal :: "nat \<Rightarrow> nat \<Rightarrow> f64" where
  "decimal digits places = round_f64 (of_nat digits / 10 ^ places)"

text \<open>\<open>round(x, ndigits)\<close> on a float: the multiple of \<open>10 ** -ndigits\<close> nearest to the
  exact value of \<open>x\<close>, a tie going to the even multiple, and of that decimal number the
  nearest double.  An infinity and NaN are returned as they are.\<close>

fun py_round :: "f64 \<Rightarrow> nat \<Rightarrow> f64" where
  "py_round (Finite x) ndigits =
     round_f64 (of_int (round_half_even (x * 10 ^ ndigits)) / 10 ^ ndigits)"
| "py_round x ndigits = x"

text \<open>The builtin \<open>sum\<close> over floats, starting from the int 0.  Up to Python 3.11 it
  adds from the left.  From Python 3.12 on it adds the first float to 0 and from then on
  carries the rounding errors of the additions in a compensation term (Neumaier's
  algorithm), which it adds at the end unless it is zero or not finite.\<close>

definition sum_plain :: "f64 list \<Rightarrow> f64" where
  "sum_plain xs = foldl fadd (Finite 0) xs"

fun neumaier :: "f64 \<Rightarrow> f64 \<Rightarrow> f64 list \<Rightarrow> f64" where
  "neumaier f_result c [] =
     (case c of
        Finite e \<Rightarrow> if e = 0 then f_result else fadd f_result c
      | _ \<Rightarrow> f_result)"
| "neumaier f_result c (x # xs) =
     (let t = fadd f_result x;
          c' = (if \<not> flt (fabs f_result) (fabs x) \<and> fabs f_result \<noteq> NaN \<and> fabs x \<noteq> NaN
                then fadd c (fadd (fsub f_result t) x)
                else fadd c (fadd (fsub x t) f_result))
      in neumaier t c' xs)"

definition sum_compensated :: "f64 list \<Rightarrow> f64" where
  "sum_compensated xs =
     (case xs of [] \<Rightarrow> Finite 0 | x # rest \<Rightarrow> neumaier (fadd (Finite 0) x) (Finite 0) rest)"

text \<open>What the reward module takes from the platform: \<open>x ** y\<close> on floats, which is the
  \<open>pow\<close> of the C library, and the builtin \<open>sum\<close> of the running interpreter.\<close>

record float_env =
  float_pow :: "f64 \<Rightarrow> f64 \<Rightarrow> f64"
  float_sum :: "f64 list \<Rightarrow> f64"

text \<open>The doubles that are a whole number of halves.\<close>

definition half_units :: "nat \<Rightarrow> f64" where
  "half_units n = Finite (of_nat n / 2)"

section \<open>The Python runtime the engine calls\<close>

text \<open>
  The grading engine and the reward module call the standard \<open>re\<close> module.  It is no
  part of the repository, so the scoring functions take it as a parameter: \<open>re_search\<close>
  is \<open>re.search(pattern, text, flags)\<close>, \<open>re_findall\<close> is \<open>re.findall\<close> (one entry
  per match) and \<open>re_split\<close> is \<open>re.split\<close>.  A match carries \<open>start()\<close>, \<open>end()\<close>
  and its groups.  The order in which a Python \<open>set\<close> of strings is iterated is not
  fixed by the language; \<open>set_order\<close> is the order the runtime happens to choose.

  Patterns are the source's pattern strings.  A backslash is written \<open>BS\<close>, and a
  pattern character outside ASCII is written as the escape \<open>\uXXXX\<close>, which \<open>re\<close> reads
  as that character.
\<close>

abbreviation BS :: string where
  "BS \<equiv> [CHR 0x5C]"

datatype re_flag = IGNORECASE | DOTALL | MULTILINE

record re_match =
  m_start :: nat
  m_end :: nat
  m_groups :: "string list"

record python_env =
  re_search :: "re_flag list \<Rightarrow> string \<Rightarrow> string \<Rightarrow> re_match option"
  re_findall :: "re_flag list \<Rightarrow> string \<Rightarrow> string \<Rightarrow> string list"
  re_split :: "string \<Rightarrow> string \<Rightarrow> string list"
  set_order :: "string list \<Rightarrow> string list"

text \<open>\<open>match.group(n)\<close> for \<open>n \<ge> 1\<close>; the empty string where the match has no such
  group.\<close>

definition group :: "re_match \<Rightarrow> nat \<Rightarrow> string" where
  "group m n = (if 0 < n \<and> n \<le> length (m_groups m) then m_groups m ! (n - 1) else [])"

text \<open>Three idioms of the source:
  \<open>any(re.search(p, text) for p in patterns)\<close>,
  \<open>sum(1 for p in patterns if re.search(p, text))\<close> and
  \<open>sum(len(re.findall(p, text, flags)) for p in patterns)\<close>.\<close>

definition any_search :: "python_env \<Rightarrow> re_flag list \<Rightarrow> string list \<Rightarrow> string \<Rightarrow> bool" where
  "any_search env flags patterns text =
     list_ex (\<lambda>p. re_search env flags p text \<noteq> None) patterns"

definition count_search :: "python_env \<Rightarrow> string list \<Rightarrow> string \<Rightarrow> nat" where
  "count_search env patterns text =
     length (filter (\<lambda>p. re_search env [] p text \<noteq> None) patterns)"

definition count_findall :: "python_env \<Rightarrow> re_flag list \<Rightarrow> string list \<Rightarrow> string \<Rightarrow> nat" where
  "count_findall env flags patterns text =
     sum_list (map (\<lambda>p. length (re_findall env flags p text)) patterns)"

section \<open>Scenario\<close>

text \<open>
  The scenario is a mapping read with \<open>.get\<close>: \<open>key_facts\<close> is a list of mappings with
  the keys \<open>fact\<close> and \<open>importance\<close>, and \<open>evaluation_criteria\<close> holds the list
  \<open>critical_failures\<close>.  Every key may be missing.
\<close>

record key_fact =
  fact :: "string option"
  importance :: "string option"

record evaluation_criteria =
  ec_critical_failures :: "string list option"

record scenario =
  key_facts :: "key_fact list option"
  scenario_evaluation_criteria :: "evaluation_criteria option"

definition get_key_facts :: "scenario \<Rightarrow> key_fact list" where
  "get_key_facts scen = (case key_facts scen of None \<Rightarrow> [] | Some fs \<Rightarrow> fs)"

definition get_fact :: "key_fact \<Rightarrow> string" where
  "get_fact f = (case fact f of None \<Rightarrow> [] | Some t \<Rightarrow> t)"

section \<open>Critical-failure detector\<close>

subsection \<open>Hallucination heuristic\<close>

definition fact_number_pattern :: string where
  "fact_number_pattern =
     BS @ ''$['' @ BS @ ''d,.]+[BMK]?|'' @ BS @ ''d+'' @ BS @ ''.?'' @ BS @ ''d*%|'' @ BS @ ''d{4}''"

definition figure_pattern :: string where
  "figure_pattern = BS @ ''$['' @ BS @ ''d,.]+[BMK]?''"

definition calculation_context_patterns :: "string list" where
  "calculation_context_patterns =
     [''(?i)(position|sizing|notional|volatility.adjusted|risk.contribution)'',
      ''(?i)(factor.{0,20}decomposition|attribution)'',
      ''(?i)(hedge|hedging).{0,20}(instrument|framework)'',
      ''(?i)(terminal|dcf|valuation).{0,20}(value|framework)'']"

text \<open>The numbers found in the scenario's facts, in order.\<close>

definition fact_values :: "python_env \<Rightarrow> scenario \<Rightarrow> string list" where
  "fact_values env scen =
     concat (map (\<lambda>f. re_findall env [] fact_number_pattern (get_fact f)) (get_key_facts scen))"

text \<open>The loop over the first ten figures, counting those that occur in no fact value.\<close>

fun unmatched_loop :: "string list \<Rightarrow> string list \<Rightarrow> nat \<Rightarrow> nat" where
  "unmatched_loop fvs [] unmatched_count = unmatched_count"
| "unmatched_loop fvs (fig # figs) unmatched_count =
     (if \<not> list_ex (\<lambda>fv. contains fv fig) fvs
      then unmatched_loop fvs figs (unmatched_count + 1)
      else unmatched_loop fvs figs unmatched_count)"

definition detect_hallucination :: "python_env \<Rightarrow> string \<Rightarrow> scenario \<Rightarrow> bool" where
  "detect_hallucination env ai_output scen =
     (let fvs = fact_values env scen;
          output_figures = re_findall env [] figure_pattern ai_output;
          has_calculation_context = any_search env [] calculation_context_patterns ai_output
      in if has_calculation_context then False
         else 5 < unmatched_loop fvs (take 10 output_figures) 0)"

subsection \<open>Risk section\<close>

definition risk_patterns :: "string list" where
  "risk_patterns =
     [''(?i)## ?risks?'',
      ''(?i)### ?key risks?'',
      ''(?i)risk assessment'',
      ''(?i)what could go wrong'',
      ''(?i)downside'',
      ''(?i)what.{0,20}wrong'',
      ''(?i)residual.{0,20}exposure'',
      ''(?i)unhedged'',
      ''(?i)factor.{0,20}drag'',
      ''(?i)critical.{0,20}failure'',
      ''(?i)common.{0,20}errors'']"

text \<open>The loop over the patterns.  The source searches twice for each pattern; the
  slice \<open>ai_output[match.end():match.end() + 200]\<close> is \<open>take 200 (drop (m_end m) ai_output)\<close>.\<close>

fun risk_section_loop :: "python_env \<Rightarrow> string \<Rightarrow> string list \<Rightarrow> bool" where
  "risk_section_loop env ai_output [] = False"
| "risk_section_loop env ai_output (pattern # rest) =
     (case re_search env [] pattern ai_output of
        None \<Rightarrow> risk_section_loop env ai_output rest
      | Some _ \<Rightarrow>
          (case re_search env [] pattern ai_output of
             None \<Rightarrow> risk_section_loop env ai_output rest
           | Some m \<Rightarrow>
               (let after_header = take 200 (drop (m_end m) ai_output)
                in if 50 < length (strip after_header) then True
                   else risk_section_loop env ai_output rest)))"

definition has_risk_section :: "python_env \<Rightarrow> string \<Rightarrow> bool" where
  "has_risk_section env ai_output = risk_section_loop env ai_output risk_patterns"

subsection \<open>Guarantee language and scenario rules\<close>

definition guarantee_patterns :: "string list" where
  "guarantee_patterns =
     [''(?i)guaranteed'',
      ''(?i)will definitely'',
      ''(?i)certain to'',
      ''(?i)cannot fail'',
      ''(?i)100% chance'',
      ''(?i)risk.free'']"

definition has_guarantee_language :: "python_env \<Rightarrow> string \<Rightarrow> bool" where
  "has_guarantee_language env ai_output = any_search env [] guarantee_patterns ai_output"

definition prob_patterns :: "string list" where
  "prob_patterns = [BS @ ''d+%'', ''probability'', ''likelihood'', ''chance'']"

definition binary_scenario_patterns :: "string list" where
  "binary_scenario_patterns =
     [''if.*succeed'', ''if.*fail'', ''success.*scenario'', ''failure.*scenario'',
      ''bull.*case'', ''bear.*case'', ''base.*case'',
      ''upside.*downside'', ''asymmetric'',
      ''binary'', ''catalyst'',
      ''probability.*success'', ''probability.*fail'',
      BS @ ''d+%.*probability'', BS @ ''d+%.*chance'']"

definition check_scenario_critical_failure :: "python_env \<Rightarrow> string \<Rightarrow> string \<Rightarrow> bool" where
  "check_scenario_critical_failure env ai_output critical_failure =
     (let lower_failure = lower critical_failure
      in if contains lower_failure ''no probability estimate''
         then \<not> any_search env [IGNORECASE] prob_patterns ai_output
         else if contains lower_failure ''ignores binary'' \<or> contains lower_failure ''binary nature''
         then \<not> any_search env [IGNORECASE] binary_scenario_patterns ai_output
         else False)"

definition scenario_critical :: "scenario \<Rightarrow> string list" where
  "scenario_critical scen =
     (case scenario_evaluation_criteria scen of
        None \<Rightarrow> []
      | Some ec \<Rightarrow> (case ec_critical_failures ec of None \<Rightarrow> [] | Some cs \<Rightarrow> cs))"

definition check_critical_failures :: "python_env \<Rightarrow> string \<Rightarrow> scenario \<Rightarrow> string list" where
  "check_critical_failures env ai_output scen =
     (if detect_hallucination env ai_output scen
      then [''Potential hallucinated data detected''] else [])
     @ (if \<not> has_risk_section env ai_output
        then [''Missing or inadequate risk assessment section''] else [])
     @ (if has_guarantee_language env ai_output
        then [''Contains forward-looking guarantees''] else [])
     @ map (\<lambda>critical. ''Scenario critical failure: '' @ critical)
         (filter (\<lambda>critical. check_scenario_critical_failure env ai_output critical)
            (scenario_critical scen))"

section \<open>Rubric, dimensions and the grading engine\<close>

text \<open>
  A rubric is the mapping \<open>GradingEngine.__init__\<close> receives.  Its three keys are read
  with \<open>rubric.get(key, default)\<close>, so each may be missing (\<open>None\<close>).  Of a dimension
  the engine reads \<open>dimension["id"]\<close> and \<open>dimension.get("weight", 1.0)\<close>.  Weights and
  thresholds are Python floats.  The type of the numbers is a parameter: the scorers and
  the verdict only compare numbers and are read over \<open>real\<close>; the aggregation computes
  with them and is read over \<open>f64\<close>.
\<close>

record 'n dimension =
  dim_id :: string
  dim_weight :: "'n option"

record 'n rubric =
  rubric_dimensions :: "'n dimension list option"
  rubric_critical_failures :: "string list option"
  rubric_pass_threshold :: "'n option"

record 'n grading_engine =
  dimensions :: "'n dimension list"
  critical_failures :: "string list"
  pass_threshold :: 'n

definition GradingEngine :: "real rubric \<Rightarrow> real grading_engine" where
  "GradingEngine r =
     \<lparr> dimensions = (case rubric_dimensions r of None \<Rightarrow> [] | Some ds \<Rightarrow> ds),
       critical_failures = (case rubric_critical_failures r of None \<Rightarrow> [] | Some cs \<Rightarrow> cs),
       pass_threshold = (case rubric_pass_threshold r of None \<Rightarrow> 70 | Some t \<Rightarrow> t) \<rparr>"

section \<open>Dimension scorers\<close>

text \<open>
  Every scorer starts from a baseline, adds or subtracts per group of patterns, and ends
  with \<open>score = min(100.0, max(0.0, score))\<close>.  It returns the score and the feedback:
  the parts joined by \<open>"; "\<close>, or the scorer's default text when there are none.
\<close>

definition feedback_text :: "string list \<Rightarrow> string \<Rightarrow> string" where
  "feedback_text feedback_parts dflt =
     (if feedback_parts \<noteq> [] then join ''; '' feedback_parts else dflt)"

subsection \<open>Equity-thesis dimensions\<close>

definition citation_patterns :: "string list" where
  "citation_patterns =
     [''10-[KQ]'',
      ''Q[1-4]'' @ BS @ ''s*20'' @ BS @ ''d{2}'',
      BS @ ''(source:'',
      ''according to'',
      ''per the'']"

text \<open>One critical fact counts when one of its first five words, longer than four
  characters, occurs in the output (both in lower case).\<close>

definition fact_addressed :: "string \<Rightarrow> key_fact \<Rightarrow> bool" where
  "fact_addressed ai_output fact_obj =
     (importance fact_obj = Some ''critical'' \<and>
      list_ex (\<lambda>term. contains (lower ai_output) (lower term))
        (filter (\<lambda>term. 4 < length term) (take 5 (split_ws (get_fact fact_obj)))))"

definition score_factual_accuracy ::
  "python_env \<Rightarrow> string \<Rightarrow> scenario \<Rightarrow> real dimension \<Rightarrow> real \<times> string" where
  "score_factual_accuracy env ai_output scen dimension =
     (let score = 70; feedback_parts = [];
          citation_count = count_findall env [IGNORECASE] citation_patterns ai_output;
          (score, feedback_parts) =
            (if 5 \<le> citation_count
             then (score + 10, feedback_parts @ [''Good citation density''])
             else if 2 \<le> citation_count
             then (score + 5, feedback_parts @ [''Adequate citations present''])
             else (score - 10, feedback_parts @ [''Insufficient citations'']));
          facts_found = length (filter (fact_addressed ai_output) (get_key_facts scen));
          (score, feedback_parts) =
            (if 3 \<le> facts_found
             then (score + 10, feedback_parts @ [''Key facts addressed''])
             else if 1 \<le> facts_found
             then (score + 5, feedback_parts @ [''Some key facts addressed''])
             else (score, feedback_parts));
          score = min 100 (max 0 score)
      in (score, feedback_text feedback_parts ''Standard factual accuracy''))"

definition scenario_keywords :: "string list" where
  "scenario_keywords =
     [''bull case'', ''bear case'', ''base case'', ''upside'', ''downside'', ''scenario'']"

definition assumption_keywords :: "string list" where
  "assumption_keywords = [''assuming'', ''assumption'', ''we assume'', ''estimate'', ''projected'']"

definition structure_patterns :: "string list" where
  "structure_patterns = [''therefore'', ''thus'', ''because'', ''as a result'', ''consequently'']"

definition score_analytical_rigor ::
  "python_env \<Rightarrow> string \<Rightarrow> scenario \<Rightarrow> real dimension \<Rightarrow> real \<times> string" where
  "score_analytical_rigor env ai_output scen dimension =
     (let score = 70; feedback_parts = [];
          scenario_count = length (filter (\<lambda>kw. contains (lower ai_output) kw) scenario_keywords);
          (score, feedback_parts) =
            (if 3 \<le> scenario_count
             then (score + 15, feedback_parts @ [''Good scenario analysis present''])
             else if 1 \<le> scenario_count
             then (score + 5, feedback_parts @ [''Some scenario consideration''])
             else (score - 10, feedback_parts @ [''Limited scenario analysis'']));
          assumption_count = count_findall env [IGNORECASE] assumption_keywords ai_output;
          (score, feedback_parts) =
            (if 5 \<le> assumption_count
             then (score + 10, feedback_parts @ [''Assumptions are explicit''])
             else if 2 \<le> assumption_count
             then (score + 5, feedback_parts @ [''Some assumptions stated''])
             else (score, feedback_parts));
          structure_count = count_findall env [IGNORECASE] structure_patterns ai_output;
          (score, feedback_parts) =
            (if 3 \<le> structure_count
             then (score + 5, feedback_parts @ [''Good logical flow''])
             else (score, feedback_parts));
          score = min 100 (max 0 score)
      in (score, feedback_text feedback_parts ''Standard analytical rigor''))"

definition risk_section_pattern :: string where
  "risk_section_pattern = ''(?i)(##.*risk|risk.*:)(.*?)(?=##|'' @ BS @ ''Z)''"

definition risk_item_pattern :: string where
  "risk_item_pattern = ''[-'' @ BS @ ''u2022'' @ BS @ ''*]|'' @ BS @ ''d+'' @ BS @ ''.''"

definition prob_impact_patterns :: "string list" where
  "prob_impact_patterns =
     [''(?i)probability'',
      ''(?i)likelihood'',
      ''(?i)impact'',
      ''(?i)severity'',
      BS @ ''d+%.*risk'',
      ''(?i)(high|medium|low)'' @ BS @ ''s*(probability|impact|risk)'']"

definition score_risk_assessment ::
  "python_env \<Rightarrow> string \<Rightarrow> scenario \<Rightarrow> real dimension \<Rightarrow> real \<times> string" where
  "score_risk_assessment env ai_output scen dimension =
     (let score = 60; feedback_parts = [];
          risk_section_match = re_search env [DOTALL] risk_section_pattern ai_output;
          (score, feedback_parts) =
            (case risk_section_match of
               Some m \<Rightarrow>
                 (let risk_section = group m 2;
                      risk_items = length (re_findall env [] risk_item_pattern risk_section)
                  in if 5 \<le> risk_items
                     then (score + 20, feedback_parts @
                            [''Comprehensive risk list ('' @ str_nat risk_items @ ''+ risks)''])
                     else if 3 \<le> risk_items
                     then (score + 10, feedback_parts @
                            [''Adequate risk coverage ('' @ str_nat risk_items @ '' risks)''])
                     else (score, feedback_parts @ [''Limited risk identification'']))
             | None \<Rightarrow> (score - 15, feedback_parts @ [''No clear risk section'']));
          has_assessment = any_search env [] prob_impact_patterns ai_output;
          (score, feedback_parts) =
            (if has_assessment
             then (score + 15, feedback_parts @ [''Includes probability/impact assessment''])
             else (score, feedback_parts));
          (score, feedback_parts) =
            (if re_search env [] ''(?i)mitigat|hedge|protect'' ai_output \<noteq> None
             then (score + 5, feedback_parts @ [''Discusses risk mitigation''])
             else (score, feedback_parts));
          score = min 100 (max 0 score)
      in (score, feedback_text feedback_parts ''Standard risk assessment''))"

definition specific_source_patterns :: "string list" where
  "specific_source_patterns =
     [''10-K'', ''10-Q'', ''8-K'', ''earnings call'', ''transcript'',
      ''investor presentation'', ''Bloomberg'', ''FactSet'']"

definition calc_patterns :: "string list" where
  "calc_patterns =
     [''='',
      BS @ ''$'' @ BS @ ''d+.*[x'' @ BS @ ''u00d7'' @ BS @ ''*]'',
      ''EPS.*'' @ BS @ ''$'',
      ''P/E.*'' @ BS @ ''d+'']"

definition score_evidence_quality ::
  "python_env \<Rightarrow> string \<Rightarrow> scenario \<Rightarrow> real dimension \<Rightarrow> real \<times> string" where
  "score_evidence_quality env ai_output scen dimension =
     (let score = 70; feedback_parts = [];
          source_count = count_findall env [IGNORECASE] specific_source_patterns ai_output;
          (score, feedback_parts) =
            (if 5 \<le> source_count
             then (score + 15, feedback_parts @ [''Excellent source citations''])
             else if 2 \<le> source_count
             then (score + 10, feedback_parts @ [''Good source references''])
             else (score - 5, feedback_parts @ [''Limited source citations'']));
          has_calculations = any_search env [] calc_patterns ai_output;
          (score, feedback_parts) =
            (if has_calculations
             then (score + 10, feedback_parts @ [''Includes shown calculations''])
             else (score, feedback_parts));
          score = min 100 (max 0 score)
      in (score, feedback_text feedback_parts ''Standard evidence quality''))"

text \<open>The dictionary \<open>required_sections\<close>, in insertion order.\<close>

definition required_sections :: "(string \<times> string list) list" where
  "required_sections =
     [(''thesis'', [''thesis'', ''investment case'', ''recommendation'']),
      (''valuation'', [''valuation'', ''price target'', ''fair value'']),
      (''risks'', [''risk'', ''downside'', ''bear case'']),
      (''catalyst'', [''catalyst'', ''trigger'', ''timeline'', ''event'']),
      (''position'', [''position'', ''sizing'', ''allocation'', ''portfolio''])]"

definition any_keyword :: "string \<Rightarrow> string list \<Rightarrow> bool" where
  "any_keyword ai_output keywords = list_ex (\<lambda>kw. contains (lower ai_output) kw) keywords"

definition score_completeness ::
  "python_env \<Rightarrow> string \<Rightarrow> scenario \<Rightarrow> real dimension \<Rightarrow> real \<times> string" where
  "score_completeness env ai_output scen dimension =
     (let score = 60; feedback_parts = [];
          sections_found =
            map fst (filter (\<lambda>(section, keywords). any_keyword ai_output keywords) required_sections);
          coverage = real (length sections_found) / real (length required_sections);
          (score, feedback_parts) =
            (if 0.9 \<le> coverage
             then (score + 25, feedback_parts @ [''All major sections covered''])
             else if 0.7 \<le> coverage
             then (score + 15, feedback_parts @ [''Most sections covered''])
             else if 0.5 \<le> coverage
             then (score + 5, feedback_parts @ [''Some sections missing''])
             else (let missing = set_order env
                         (filter (\<lambda>k. k \<notin> set sections_found) (map fst required_sections))
                   in (score - 15, feedback_parts @ [''Missing sections: '' @ join '', '' missing])));
          has_bull = any_keyword ai_output [''bull'', ''upside'', ''positive''];
          has_bear = any_keyword ai_output [''bear'', ''downside'', ''risk'', ''concern''];
          (score, feedback_parts) =
            (if has_bull \<and> has_bear
             then (score + 10, feedback_parts @ [''Balanced bull/bear presentation''])
             else (score, feedback_parts));
          score = min 100 (max 0 score)
      in (score, feedback_text feedback_parts ''Standard completeness''))"

subsection \<open>DCF valuation dimensions\<close>

definition separation_patterns :: "string list" where
  "separation_patterns =
     [''(?i)alpha.{0,30}(vs|versus|from|and).{0,30}environment'',
      ''(?i)company.specific.{0,30}(vs|versus|from).{0,30}(market|sector|macro)'',
      ''(?i)idiosyncratic.{0,30}(vs|versus|from).{0,30}(systematic|factor)'',
      ''(?i)durable.{0,30}(vs|versus|from).{0,30}(cyclical|temporary)'',
      ''(?i)environmental.{0,30}tailwind'',
      ''(?i)structural.{0,30}(vs|versus|from).{0,30}cyclical'']"

definition quantification_patterns :: "string list" where
  "quantification_patterns =
     [BS @ ''d+%?'' @ BS @ ''s*(of|from)'' @ BS @ ''s*(growth|outperformance|return)'',
      ''(?i)(contributed|drove|explained).{0,30}'' @ BS @ ''d+%'',
      ''(?i)'' @ BS @ ''d+.{0,5}%'' @ BS @ ''s*(was|came from|attributable)'']"

definition extrapolation_warning_patterns :: "string list" where
  "extrapolation_warning_patterns =
     [''(?i)cannot.{0,20}extrapolate'',
      ''(?i)not.{0,15}sustainable'',
      ''(?i)temporary.{0,15}(tailwind|boost|benefit)'',
      ''(?i)normalize'',
      ''(?i)revert.{0,15}mean'']"

definition score_alpha_environment ::
  "python_env \<Rightarrow> string \<Rightarrow> scenario \<Rightarrow> real dimension \<Rightarrow> real \<times> string" where
  "score_alpha_environment env ai_output scen dimension =
     (let score = 50; feedback_parts = [];
          separation_count = count_search env separation_patterns ai_output;
          (score, feedback_parts) =
            (if 2 \<le> separation_count
             then (score + 25, feedback_parts @ [''Strong alpha/environment separation''])
             else if 1 \<le> separation_count
             then (score + 15, feedback_parts @ [''Some alpha/environment distinction''])
             else (score - 10, feedback_parts @ [''No alpha/environment separation'']));
          has_quantification = any_search env [] quantification_patterns ai_output;
          (score, feedback_parts) =
            (if has_quantification
             then (score + 15, feedback_parts @ [''Quantifies driver contributions''])
             else (score, feedback_parts));
          has_extrapolation_awareness = any_search env [] extrapolation_warning_patterns ai_output;
          (score, feedback_parts) =
            (if has_extrapolation_awareness
             then (score + 10, feedback_parts @ [''Warns against environmental extrapolation''])
             else (score, feedback_parts));
          score = min 100 (max 0 score)
      in (score, feedback_text feedback_parts ''Standard alpha/environment analysis''))"

definition treatment_scenario_patterns :: "string list" where
  "treatment_scenario_patterns =
     [''(?i)bull.{0,10}case'',
      ''(?i)bear.{0,10}case'',
      ''(?i)base.{0,10}case'',
      ''(?i)scenario.{0,20}analysis'',
      ''(?i)sensitivity'',
      ''(?i)probability.weighted'']"

definition treatment_uncertainty_patterns :: "string list" where
  "treatment_uncertainty_patterns =
     [''(?i)uncertainty'',
      ''(?i)not.{0,10}hedged'',
      ''(?i)residual.{0,10}risk'',
      ''(?i)what.{0,15}wrong'',
      ''(?i)unhedged'']"

definition score_risk_treatment ::
  "python_env \<Rightarrow> string \<Rightarrow> scenario \<Rightarrow> real dimension \<Rightarrow> real \<times> string" where
  "score_risk_treatment env ai_output scen dimension =
     (let score = 50; feedback_parts = [];
          scenario_count = count_search env treatment_scenario_patterns ai_output;
          (score, feedback_parts) =
            (if 3 \<le> scenario_count
             then (score + 20, feedback_parts @ [''Comprehensive scenario analysis''])
             else if 2 \<le> scenario_count
             then (score + 10, feedback_parts @ [''Includes scenario analysis''])
             else (score, feedback_parts));
          uncertainty_count = count_search env treatment_uncertainty_patterns ai_output;
          (score, feedback_parts) =
            (if 2 \<le> uncertainty_count
             then (score + 15, feedback_parts @ [''Explicit uncertainty acknowledgment''])
             else if 1 \<le> uncertainty_count
             then (score + 5, feedback_parts @ [''Some uncertainty discussion''])
             else (score, feedback_parts));
          (score, feedback_parts) =
            (if re_search env [IGNORECASE]
                  (BS @ ''d+%'' @ BS @ ''s*(probability|chance|likelihood)'') ai_output \<noteq> None
             then (score + 15, feedback_parts @ [''Probability-weighted scenarios''])
             else (score, feedback_parts));
          score = min 100 (max 0 score)
      in (score, feedback_text feedback_parts ''Standard risk treatment''))"

definition terminal_patterns :: "string list" where
  "terminal_patterns =
     [''(?i)terminal.{0,15}(growth|value|rate)'',
      ''(?i)perpetuity'',
      ''(?i)exit.{0,10}multiple'',
      ''(?i)long.term.{0,10}growth'']"

definition gdp_patterns :: "string list" where
  "gdp_patterns =
     [''(?i)(at|near|around).{0,10}GDP'',
      ''(?i)nominal.{0,10}GDP'',
      ''(?i)inflation.{0,10}plus'',
      ''(?i)(2|3|4)%'' @ BS @ ''s*terminal'',
      ''(?i)cannot.{0,20}perpetuity'']"

definition consistency_patterns :: "string list" where
  "consistency_patterns =
     [''(?i)consistent'',
      ''(?i)reinvestment.{0,20}(rate|ratio)'',
      ''(?i)ROIC.{0,20}WACC'',
      ''(?i)implied.{0,15}(margin|return|growth)'']"

definition score_terminal_value ::
  "python_env \<Rightarrow> string \<Rightarrow> scenario \<Rightarrow> real dimension \<Rightarrow> real \<times> string" where
  "score_terminal_value env ai_output scen dimension =
     (let score = 50; feedback_parts = [];
          has_terminal = any_search env [] terminal_patterns ai_output;
          (score, feedback_parts) =
            (if has_terminal
             then (score + 15, feedback_parts @ [''Addresses terminal value''])
             else (score, feedback_parts));
          has_gdp_anchor = any_search env [] gdp_patterns ai_output;
          (score, feedback_parts) =
            (if has_gdp_anchor
             then (score + 20, feedback_parts @ [''Terminal growth anchored appropriately''])
             else (score, feedback_parts @ [''Terminal growth may lack grounding'']));
          has_consistency = any_search env [] consistency_patterns ai_output;
          (score, feedback_parts) =
            (if has_consistency
             then (score + 15, feedback_parts @ [''Internal consistency checked''])
             else (score, feedback_parts));
          score = min 100 (max 0 score)
      in (score, feedback_text feedback_parts ''Standard terminal value analysis''))"

definition cyclical_patterns :: "string list" where
  "cyclical_patterns =
     [''(?i)cyclical.{0,20}(vs|versus|or).{0,20}structural'',
      ''(?i)temporary.{0,20}(vs|versus|or).{0,20}permanent'',
      ''(?i)normalize'',
      ''(?i)mean.{0,10}revert'',
      ''(?i)mid.cycle'',
      ''(?i)through.cycle'']"

definition normalized_patterns :: "string list" where
  "normalized_patterns =
     [''(?i)normalized.{0,15}(earnings|margin|revenue)'',
      ''(?i)sustainable.{0,15}(level|margin|growth)'',
      ''(?i)peak.{0,15}(vs|versus|or).{0,15}trough'']"

definition score_cyclical_structural ::
  "python_env \<Rightarrow> string \<Rightarrow> scenario \<Rightarrow> real dimension \<Rightarrow> real \<times> string" where
  "score_cyclical_structural env ai_output scen dimension =
     (let score = 50; feedback_parts = [];
          cyclical_count = count_search env cyclical_patterns ai_output;
          (score, feedback_parts) =
            (if 2 \<le> cyclical_count
             then (score + 25, feedback_parts @ [''Strong cyclical/structural analysis''])
             else if 1 \<le> cyclical_count
             then (score + 10, feedback_parts @ [''Some cyclical awareness''])
             else (score, feedback_parts));
          has_normalized = any_search env [] normalized_patterns ai_output;
          (score, feedback_parts) =
            (if has_normalized
             then (score + 20, feedback_parts @ [''Uses normalized metrics''])
             else (score, feedback_parts));
          score = min 100 (max 0 score)
      in (score, feedback_text feedback_parts ''Standard cyclical analysis''))"

subsection \<open>Portfolio construction dimensions\<close>

definition env_idio_patterns :: "string list" where
  "env_idio_patterns =
     [''(?i)environmental.{0,20}(vs|versus|from).{0,20}idiosyncratic'',
      ''(?i)systematic.{0,20}(vs|versus|from).{0,20}specific'',
      ''(?i)factor.{0,20}(vs|versus|from).{0,20}stock'',
      ''(?i)market.{0,20}(vs|versus|from).{0,20}company'',
      ''(?i)beta.{0,20}(vs|versus|from).{0,20}alpha'']"

definition risk_types :: "string list" where
  "risk_types =
     [''(?i)beta'', ''(?i)sector'', ''(?i)factor'', ''(?i)volatility'',
      ''(?i)duration'', ''(?i)liquidity'', ''(?i)correlation'']"

definition score_risk_classification ::
  "python_env \<Rightarrow> string \<Rightarrow> scenario \<Rightarrow> real dimension \<Rightarrow> real \<times> string" where
  "score_risk_classification env ai_output scen dimension =
     (let score = 50; feedback_parts = [];
          env_idio_count = count_search env env_idio_patterns ai_output;
          (score, feedback_parts) =
            (if 2 \<le> env_idio_count
             then (score + 25, feedback_parts @ [''Strong env/idio classification''])
             else if 1 \<le> env_idio_count
             then (score + 15, feedback_parts @ [''Some risk classification''])
             else (score, feedback_parts));
          risk_type_count = count_search env risk_types ai_output;
          (score, feedback_parts) =
            (if 4 \<le> risk_type_count
             then (score + 20, feedback_parts @ [''Comprehensive risk taxonomy''])
             else if 2 \<le> risk_type_count
             then (score + 10, feedback_parts @ [''Multiple risks identified''])
             else (score, feedback_parts));
          score = min 100 (max 0 score)
      in (score, feedback_text feedback_parts ''Standard risk classification''))"

definition hedge_logic_patterns :: "string list" where
  "hedge_logic_patterns =
     [''(?i)hedge.{0,30}environmental'',
      ''(?i)hedge.{0,30}(factor|systematic|beta)'',
      ''(?i)keep.{0,20}(idiosyncratic|specific|alpha)'',
      ''(?i)(don't|do not).{0,15}hedge.{0,15}(alpha|thesis)'',
      ''(?i)what.{0,10}(to|not to).{0,10}hedge'']"

definition instrument_patterns :: "string list" where
  "instrument_patterns =
     [''(?i)(SPY|XLV|XBI|XLK|QQQ)'',
      ''(?i)(ETF|index).{0,15}hedge'',
      ''(?i)(put|call|option)'',
      ''(?i)futures'',
      ''(?i)overlay'']"

definition hedging_residual_patterns :: "string list" where
  "hedging_residual_patterns =
     [''(?i)residual.{0,15}exposure'',
      ''(?i)unhedged.{0,15}(risk|exposure)'',
      ''(?i)remain.{0,15}exposed'',
      ''(?i)accept.{0,15}(as|exposure)'']"

definition score_hedging_logic ::
  "python_env \<Rightarrow> string \<Rightarrow> scenario \<Rightarrow> real dimension \<Rightarrow> real \<times> string" where
  "score_hedging_logic env ai_output scen dimension =
     (let score = 50; feedback_parts = [];
          hedge_logic_count = count_search env hedge_logic_patterns ai_output;
          (score, feedback_parts) =
            (if 2 \<le> hedge_logic_count
             then (score + 25, feedback_parts @ [''Strong hedging logic''])
             else if 1 \<le> hedge_logic_count
             then (score + 15, feedback_parts @ [''Some hedging rationale''])
             else (score, feedback_parts));
          has_instruments = any_search env [] instrument_patterns ai_output;
          (score, feedback_parts) =
            (if has_instruments
             then (score + 15, feedback_parts @ [''Specific hedge instruments''])
             else (score, feedback_parts));
          has_residual = any_search env [] hedging_residual_patterns ai_output;
          (score, feedback_parts) =
            (if has_residual
             then (score + 10, feedback_parts @ [''Acknowledges residual exposure''])
             else (score, feedback_parts));
          score = min 100 (max 0 score)
      in (score, feedback_text feedback_parts ''Standard hedging analysis''))"

definition risk_sizing_patterns :: "string list" where
  "risk_sizing_patterns =
     [''(?i)volatility.{0,20}(adjusted|based|weighted)'',
      ''(?i)risk.{0,20}(contribution|parity|weighted)'',
      ''(?i)dollar.{0,20}(vs|versus|'' @ BS @ ''u2260).{0,20}risk'',
      ''(?i)notional.{0,20}(vs|versus|'' @ BS @ ''u2260).{0,20}risk'',
      ''(?i)equal.{0,15}(vol|risk|volatility)'',
      ''(?i)size.{0,20}(on|for|by).{0,20}risk'']"

definition vol_patterns :: "string list" where
  "vol_patterns =
     [BS @ ''d+%'' @ BS @ ''s*(vol|volatility|'' @ BS @ ''u03c3)'',
      ''(?i)(vol|volatility).{0,10}'' @ BS @ ''d+%'',
      ''(?i)'' @ BS @ ''$['' @ BS @ ''d.]+M?.{0,10}(at|'' @ BS @ ''u00d7).{0,10}'' @ BS @ ''d+%'']"

definition binary_patterns :: "string list" where
  "binary_patterns =
     [''(?i)binary.{0,20}(risk|event|sizing)'',
      ''(?i)max.{0,10}loss'',
      ''(?i)event.{0,20}sizing'',
      ''(?i)defined.{0,10}risk'']"

definition score_sizing_methodology ::
  "python_env \<Rightarrow> string \<Rightarrow> scenario \<Rightarrow> real dimension \<Rightarrow> real \<times> string" where
  "score_sizing_methodology env ai_output scen dimension =
     (let score = 50; feedback_parts = [];
          risk_sizing_count = count_search env risk_sizing_patterns ai_output;
          (score, feedback_parts) =
            (if 2 \<le> risk_sizing_count
             then (score + 25, feedback_parts @ [''Strong risk-based sizing''])
             else if 1 \<le> risk_sizing_count
             then (score + 15, feedback_parts @ [''Some risk-based sizing''])
             else (score, feedback_parts @ [''May use notional sizing only'']));
          has_vol_calc = any_search env [] vol_patterns ai_output;
          (score, feedback_parts) =
            (if has_vol_calc
             then (score + 15, feedback_parts @ [''Includes volatility calculations''])
             else (score, feedback_parts));
          has_binary = any_search env [] binary_patterns ai_output;
          (score, feedback_parts) =
            (if has_binary
             then (score + 10, feedback_parts @ [''Addresses binary event sizing''])
             else (score, feedback_parts));
          score = min 100 (max 0 score)
      in (score, feedback_text feedback_parts ''Standard sizing methodology''))"

definition exposure_patterns :: "string list" where
  "exposure_patterns =
     [''(?i)gross.{0,10}exposure'',
      ''(?i)net.{0,10}exposure'',
      ''(?i)portfolio.{0,10}(weight|allocation)'',
      ''(?i)risk.{0,10}budget'']"

definition risk_budget_patterns :: "string list" where
  "risk_budget_patterns =
     [''(?i)risk.{0,15}contribution'',
      ''(?i)risk.{0,15}budget'',
      ''(?i)'' @ BS @ ''d+%'' @ BS @ ''s*(of|portfolio).{0,15}(risk|vol)'']"

definition score_risk_placement ::
  "python_env \<Rightarrow> string \<Rightarrow> scenario \<Rightarrow> real dimension \<Rightarrow> real \<times> string" where
  "score_risk_placement env ai_output scen dimension =
     (let score = 50; feedback_parts = [];
          exposure_count = count_search env exposure_patterns ai_output;
          (score, feedback_parts) =
            (if 2 \<le> exposure_count
             then (score + 20, feedback_parts @ [''Discusses exposure management''])
             else if 1 \<le> exposure_count
             then (score + 10, feedback_parts @ [''Some exposure discussion''])
             else (score, feedback_parts));
          has_risk_budget = any_search env [] risk_budget_patterns ai_output;
          (score, feedback_parts) =
            (if has_risk_budget
             then (score + 15, feedback_parts @ [''Risk budgeting present''])
             else (score, feedback_parts));
          score = min 100 (max 0 score)
      in (score, feedback_text feedback_parts ''Standard risk placement''))"

definition judgment_uncertainty_patterns :: "string list" where
  "judgment_uncertainty_patterns =
     [''(?i)uncertain'',
      ''(?i)unknown'',
      ''(?i)range.{0,15}outcome'',
      ''(?i)confidence'',
      ''(?i)probability'']"

definition what_if_patterns :: "string list" where
  "what_if_patterns =
     [''(?i)what.{0,10}if'',
      ''(?i)what.{0,15}change.{0,15}view'',
      ''(?i)revisit.{0,15}if'',
      ''(?i)monitor.{0,15}for'']"

definition score_uncertainty_judgment ::
  "python_env \<Rightarrow> string \<Rightarrow> scenario \<Rightarrow> real dimension \<Rightarrow> real \<times> string" where
  "score_uncertainty_judgment env ai_output scen dimension =
     (let score = 50; feedback_parts = [];
          uncertainty_count = count_search env judgment_uncertainty_patterns ai_output;
          (score, feedback_parts) =
            (if 3 \<le> uncertainty_count
             then (score + 20, feedback_parts @ [''Strong uncertainty acknowledgment''])
             else if 1 \<le> uncertainty_count
             then (score + 10, feedback_parts @ [''Some uncertainty discussion''])
             else (score, feedback_parts));
          has_what_if = any_search env [] what_if_patterns ai_output;
          (score, feedback_parts) =
            (if has_what_if
             then (score + 15, feedback_parts @ [''Includes contingency planning''])
             else (score, feedback_parts));
          score = min 100 (max 0 score)
      in (score, feedback_text feedback_parts ''Standard uncertainty handling''))"

subsection \<open>Risk attribution dimensions\<close>

definition factor_patterns :: "string list" where
  "factor_patterns =
     [''(?i)factor.{0,20}(decomposition|attribution|contribution)'',
      ''(?i)factor.{0,20}drag'',
      ''(?i)(biotech|small.cap|growth|value|momentum).{0,20}(factor|tilt|exposure)'',
      ''(?i)overweight.{0,20}'' @ BS @ ''u00d7.{0,20}return'',
      ''(?i)'' @ BS @ ''d+%'' @ BS @ ''s*(overweight|underweight).{0,20}-?'' @ BS @ ''d+%'']"

definition attribution_residual_patterns :: "string list" where
  "attribution_residual_patterns =
     [''(?i)residual.{0,15}alpha'',
      ''(?i)after.{0,20}(factor|adjustment)'',
      ''(?i)stock.selection.{0,20}(after|net|excluding)'',
      ''(?i)(explained|unexplained).{0,15}by.{0,15}factor'']"

definition score_attribution_discipline ::
  "python_env \<Rightarrow> string \<Rightarrow> scenario \<Rightarrow> real dimension \<Rightarrow> real \<times> string" where
  "score_attribution_discipline env ai_output scen dimension =
     (let score = 50; feedback_parts = [];
          factor_count = count_search env factor_patterns ai_output;
          (score, feedback_parts) =
            (if 3 \<le> factor_count
             then (score + 25, feedback_parts @ [''Strong factor decomposition''])
             else if 1 \<le> factor_count
             then (score + 15, feedback_parts @ [''Some factor analysis''])
             else (score, feedback_parts @ [''Limited factor decomposition'']));
          has_residual = any_search env [] attribution_residual_patterns ai_output;
          (score, feedback_parts) =
            (if has_residual
             then (score + 20, feedback_parts @ [''Calculates residual alpha''])
             else (score, feedback_parts));
          (score, feedback_parts) =
            (if re_search env []
                  (BS @ ''d+%.{0,15}'' @ BS @ ''u00d7.{0,15}-?'' @ BS @ ''d+%'') ai_output \<noteq> None
             then (score + 10, feedback_parts @ [''Shows calculation methodology''])
             else (score, feedback_parts));
          score = min 100 (max 0 score)
      in (score, feedback_text feedback_parts ''Standard attribution analysis''))"

definition hypothesis_patterns :: "string list" where
  "hypothesis_patterns =
     [''(?i)hypothesis'',
      ''(?i)if.{0,20}(true|correct).{0,20}expect'',
      ''(?i)falsif'',
      ''(?i)(test|testing).{0,20}(belief|assumption|claim)'',
      ''(?i)evidence.{0,20}(would|should).{0,20}(show|support)'']"

definition skepticism_patterns :: "string list" where
  "skepticism_patterns =
     [''(?i)(not|doesn't|does not).{0,15}support'',
      ''(?i)inconsistent.{0,15}with'',
      ''(?i)alternative.{0,15}explanation'',
      ''(?i)(question|questioning).{0,15}(PM|narrative|belief)'']"

definition evidence_patterns :: "string list" where
  "evidence_patterns =
     [''(?i)evidence.{0,20}(suggests|shows|indicates)'',
      ''(?i)data.{0,15}(suggests|shows|indicates)'',
      ''(?i)analysis.{0,15}(suggests|shows|reveals)'']"

definition score_hypothesis_testing ::
  "python_env \<Rightarrow> string \<Rightarrow> scenario \<Rightarrow> real dimension \<Rightarrow> real \<times> string" where
  "score_hypothesis_testing env ai_output scen dimension =
     (let score = 50; feedback_parts = [];
          hypothesis_count = count_search env hypothesis_patterns ai_output;
          (score, feedback_parts) =
            (if 2 \<le> hypothesis_count
             then (score + 25, feedback_parts @ [''Strong hypothesis testing''])
             else if 1 \<le> hypothesis_count
             then (score + 15, feedback_parts @ [''Some hypothesis testing''])
             else (score, feedback_parts @ [''Limited hypothesis testing'']));
          has_skepticism = any_search env [] skepticism_patterns ai_output;
          (score, feedback_parts) =
            (if has_skepticism
             then (score + 15, feedback_parts @ [''Shows appropriate skepticism''])
             else (score, feedback_parts));
          has_evidence = any_search env [] evidence_patterns ai_output;
          (score, feedback_parts) =
            (if has_evidence
             then (score + 10, feedback_parts @ [''Evidence-based conclusions''])
             else (score, feedback_parts));
          score = min 100 (max 0 score)
      in (score, feedback_text feedback_parts ''Standard hypothesis testing''))"

definition conditional_patterns :: "string list" where
  "conditional_patterns =
     [''(?i)conditional.{0,15}on.{0,15}environment'',
      ''(?i)control.{0,20}for.{0,20}(factor|environment)'',
      ''(?i)after.{0,20}(adjusting|controlling).{0,20}for'',
      ''(?i)environment.{0,20}neutral'',
      ''(?i)skill.{0,20}(given|conditional|after)'']"

definition intentionality_patterns :: "string list" where
  "intentionality_patterns =
     [''(?i)intentional.{0,20}(vs|versus|or).{0,20}(unintentional|accidental)'',
      ''(?i)was.{0,20}(intentional|deliberate|chosen)'',
      ''(?i)(chosen|deliberate).{0,20}(bet|exposure|tilt)'',
      ''(?i)accidental.{0,20}(accumulation|exposure)'']"

definition neutral_skepticism_patterns :: "string list" where
  "neutral_skepticism_patterns =
     [''(?i)(not|wasn't|was not).{0,15}neutral.{0,15}environment'',
      ''(?i)silent.{0,15}(rotation|factor|regime)'',
      ''(?i)environment.{0,20}(wasn't|was not|not).{0,15}neutral'']"

definition score_contextual_evaluation ::
  "python_env \<Rightarrow> string \<Rightarrow> scenario \<Rightarrow> real dimension \<Rightarrow> real \<times> string" where
  "score_contextual_evaluation env ai_output scen dimension =
     (let score = 50; feedback_parts = [];
          conditional_count = count_search env conditional_patterns ai_output;
          (score, feedback_parts) =
            (if 2 \<le> conditional_count
             then (score + 20, feedback_parts @ [''Evaluates skill conditionally''])
             else if 1 \<le> conditional_count
             then (score + 10, feedback_parts @ [''Some conditional evaluation''])
             else (score, feedback_parts));
          has_intentionality = any_search env [] intentionality_patterns ai_output;
          (score, feedback_parts) =
            (if has_intentionality
             then (score + 20, feedback_parts @ [''Addresses intentionality question''])
             else (score, feedback_parts));
          has_neutral_skepticism = any_search env [] neutral_skepticism_patterns ai_output;
          (score, feedback_parts) =
            (if has_neutral_skepticism
             then (score + 10, feedback_parts @ [''Questions neutral environment assumption''])
             else (score, feedback_parts));
          score = min 100 (max 0 score)
      in (score, feedback_text feedback_parts ''Standard contextual evaluation''))"

subsection \<open>Dispatch\<close>

definition score_with_llm :: "string \<Rightarrow> scenario \<Rightarrow> real dimension \<Rightarrow> real \<times> string" where
  "score_with_llm ai_output scen dimension = (75, ''LLM scoring not yet implemented'')"

definition score_dimension ::
  "python_env \<Rightarrow> string \<Rightarrow> scenario \<Rightarrow> real dimension \<Rightarrow> bool \<Rightarrow> real \<times> string" where
  "score_dimension env ai_output scen dimension use_llm =
     (let d = dim_id dimension
      in if use_llm then score_with_llm ai_output scen dimension
         else if d = ''factual_accuracy'' then score_factual_accuracy env ai_output scen dimension
         else if d = ''analytical_rigor'' then score_analytical_rigor env ai_output scen dimension
         else if d = ''risk_assessment'' then score_risk_assessment env ai_output scen dimension
         else if d = ''evidence_quality'' then score_evidence_quality env ai_output scen dimension
         else if d = ''completeness'' then score_completeness env ai_output scen dimension
         else if d = ''alpha_environment'' then score_alpha_environment env ai_output scen dimension
         else if d = ''risk_treatment'' then score_risk_treatment env ai_output scen dimension
         else if d = ''terminal_value'' then score_terminal_value env ai_output scen dimension
         else if d = ''risk_classification'' then score_risk_classification env ai_output scen dimension
         else if d = ''hedging_logic'' then score_hedging_logic env ai_output scen dimension
         else if d = ''sizing_methodology'' then score_sizing_methodology env ai_output scen dimension
         else if d = ''attribution_discipline''
           then score_attribution_discipline env ai_output scen dimension
         else if d = ''hypothesis_testing'' then score_hypothesis_testing env ai_output scen dimension
         else if d = ''contextual_evaluation''
           then score_contextual_evaluation env ai_output scen dimension
         else if d = ''cyclical_structural'' then score_cyclical_structural env ai_output scen dimension
         else if d = ''risk_placement'' then score_risk_placement env ai_output scen dimension
         else if d = ''uncertainty_judgment'' then score_uncertainty_judgment env ai_output scen dimension
         else (70, ''Default score applied''))"

text \<open>The dimension ids the dispatch recognises.\<close>

definition recognized_ids :: "string list" where
  "recognized_ids =
     [''factual_accuracy'', ''analytical_rigor'', ''risk_assessment'', ''evidence_quality'',
      ''completeness'', ''alpha_environment'', ''risk_treatment'', ''terminal_value'',
      ''risk_classification'', ''hedging_logic'', ''sizing_methodology'',
      ''attribution_discipline'', ''hypothesis_testing'', ''contextual_evaluation'',
      ''cyclical_structural'', ''risk_placement'', ''uncertainty_judgment'']"

subsection \<open>Grading a submission\<close>

text \<open>\<open>grade\<close> checks the critical failures first, then fills the two dictionaries
  \<open>dimension_scores\<close> and \<open>detailed_feedback\<close>, one dimension after the other.\<close>

fun grade_loop ::
  "python_env \<Rightarrow> string \<Rightarrow> scenario \<Rightarrow> bool \<Rightarrow> real dimension list \<Rightarrow>
   (string \<rightharpoonup> real) \<times> (string \<rightharpoonup> string) \<Rightarrow> (string \<rightharpoonup> real) \<times> (string \<rightharpoonup> string)" where
  "grade_loop env ai_output scen use_llm [] acc = acc"
| "grade_loop env ai_output scen use_llm (dimension # rest) (dimension_scores, detailed_feedback) =
     (case score_dimension env ai_output scen dimension use_llm of
        (score, feedback) \<Rightarrow>
          grade_loop env ai_output scen use_llm rest
            (dimension_scores(dim_id dimension \<mapsto> score),
             detailed_feedback(dim_id dimension \<mapsto> feedback)))"

definition grade ::
  "real grading_engine \<Rightarrow> python_env \<Rightarrow> string \<Rightarrow> scenario \<Rightarrow> bool \<Rightarrow>
   (string \<rightharpoonup> real) \<times> string list \<times> (string \<rightharpoonup> string)" where
  "grade self env ai_output scen use_llm =
     (let failures = check_critical_failures env ai_output scen
      in case grade_loop env ai_output scen use_llm (dimensions self) (Map.empty, Map.empty) of
           (dimension_scores, detailed_feedback) \<Rightarrow>
             (dimension_scores, failures, detailed_feedback))"

subsection \<open>Aggregation\<close>

text \<open>\<open>calculate_overall_score\<close> multiplies, adds and divides floats, so it is read in
  binary64: the engine holds the weights of the rubric as doubles, and the scores map
  holds doubles.  \<open>dimension.get("weight", 1.0)\<close> is \<open>weight_of\<close>.  The accumulator of the
  loop is \<open>(total, total_weight)\<close>, written \<open>(tot, tot_weight)\<close>; both start at \<open>0.0\<close>.\<close>

definition GradingEngine_f64 :: "f64 rubric \<Rightarrow> f64 grading_engine" where
  "GradingEngine_f64 r =
     \<lparr> dimensions = (case rubric_dimensions r of None \<Rightarrow> [] | Some ds \<Rightarrow> ds),
       critical_failures = (case rubric_critical_failures r of None \<Rightarrow> [] | Some cs \<Rightarrow> cs),
       pass_threshold = (case rubric_pass_threshold r of None \<Rightarrow> Finite 70 | Some t \<Rightarrow> t) \<rparr>"

definition weight_of :: "f64 dimension \<Rightarrow> f64" where
  "weight_of d = (case dim_weight d of None \<Rightarrow> Finite 1 | Some w \<Rightarrow> w)"

fun overall_loop ::
  "(string \<rightharpoonup> f64) \<Rightarrow> f64 dimension list \<Rightarrow> f64 \<times> f64 \<Rightarrow> f64 \<times> f64" where
  "overall_loop dimension_scores [] acc = acc"
| "overall_loop dimension_scores (d # ds) (tot, tot_weight) =
     (let weight = weight_of d
      in case dimension_scores (dim_id d) of
           Some s \<Rightarrow>
             overall_loop dimension_scores ds (fadd tot (fmul s weight), fadd tot_weight weight)
         | None \<Rightarrow> overall_loop dimension_scores ds (tot, tot_weight))"

definition calculate_overall_score ::
  "f64 grading_engine \<Rightarrow> (string \<rightharpoonup> f64) \<Rightarrow> py_error + f64" where
  "calculate_overall_score self dimension_scores =
     (case overall_loop dimension_scores (dimensions self) (Finite 0, Finite 0) of
        (tot, tot_weight) \<Rightarrow> if tot_weight = Finite 0 then Inr (Finite 0) else fdiv tot tot_weight)"

definition determine_pass_fail :: "real grading_engine \<Rightarrow> real \<Rightarrow> string list \<Rightarrow> bool" where
  "determine_pass_fail self overall_score failures =
     (if failures \<noteq> [] then False else pass_threshold self \<le> overall_score)"

subsection \<open>The overall score of an evaluation run\<close>

text \<open>
  \<open>EvalRunner.run_evaluation\<close> computes the overall score itself.  When the weights
  sum to more than 10 they are read as percentages and each term is divided by 100;
  otherwise the weighted sum is taken as it is.  A dimension without a score counts as 0
  (\<open>scores.get(dim["id"], 0)\<close>).  Both sums are the builtin \<open>sum\<close>, the first argument
  here.
\<close>

definition scores_get :: "(string \<rightharpoonup> f64) \<Rightarrow> string \<Rightarrow> f64" where
  "scores_get scores k = (case scores k of None \<Rightarrow> Finite 0 | Some s \<Rightarrow> s)"

definition run_evaluation_overall ::
  "(f64 list \<Rightarrow> f64) \<Rightarrow> f64 rubric \<Rightarrow> (string \<rightharpoonup> f64) \<Rightarrow> f64" where
  "run_evaluation_overall builtin_sum r scores =
     (let dims = (case rubric_dimensions r of None \<Rightarrow> [] | Some ds \<Rightarrow> ds);
          total_weight = builtin_sum (map weight_of dims)
      in if flt (Finite 10) total_weight
         then builtin_sum
                (map (\<lambda>d. fquot (fmul (scores_get scores (dim_id d)) (weight_of d)) (Finite 100)) dims)
         else builtin_sum (map (\<lambda>d. fmul (scores_get scores (dim_id d)) (weight_of d)) dims))"

section \<open>Composite reward signal\<close>

text \<open>The dataclass \<open>RewardSignal\<close>.  The field \<open>length\<close> is called
  \<open>length_reward\<close> here; \<open>explanations\<close> is a dictionary of strings, kept in insertion
  order.  The type of the four numbers is a parameter: \<open>real\<close> where only the branch
  taken matters, \<open>f64\<close> where the numbers themselves are stored.\<close>

record 'n reward_signal =
  accuracy :: 'n
  logic :: 'n
  format_quality :: 'n
  length_reward :: 'n
  explanations :: "(string \<times> string) list"

subsection \<open>Heuristic reward functions\<close>

text \<open>The four heuristics and \<open>compute_reward\<close>, read over the real numbers.  In this
  reading \<open>variance ** 0.5\<close> is the square root.\<close>

definition LOGIC_KEYWORDS :: "string list" where
  "LOGIC_KEYWORDS =
     [''therefore'', ''because'', ''thus'', ''assuming'', ''given'', ''since'',
      ''implies'', ''consequently'', ''however'', ''although'', ''whereas'',
      ''if'', ''then'', ''leads to'', ''results in'', ''due to'']"

text \<open>The pattern of \<open>_STRUCTURE_MARKERS\<close>, compiled with \<open>re.MULTILINE\<close>.\<close>

definition STRUCTURE_MARKERS :: string where
  "STRUCTURE_MARKERS =
     ''(?:^|'' @ BS @ ''n)(?:#{1,4}'' @ BS @ ''s|[-*]'' @ BS @ ''s|'' @ BS @ ''d+'' @ BS @ ''.''
       @ BS @ ''s|>'' @ BS @ ''s|'' @ BS @ ''|)''"

definition numbered_step_pattern :: string where
  "numbered_step_pattern =
     ''(?:^|'' @ BS @ ''n)'' @ BS @ ''s*'' @ BS @ ''d+[.)]'' @ BS @ ''s''"

definition compute_accuracy :: "string \<Rightarrow> string option \<Rightarrow> real" where
  "compute_accuracy text reference =
     (case reference of
        None \<Rightarrow> 0.5
      | Some ref \<Rightarrow>
          if ref = [] then 0.5
          else (let text_tokens = set (split_ws (lower text));
                    ref_tokens = set (split_ws (lower ref))
                in if ref_tokens = {} then 0.5
                   else (let overlap = real (card (text_tokens \<inter> ref_tokens)) / real (card ref_tokens)
                         in min (overlap * 1.2) 1)))"

definition compute_logic :: "python_env \<Rightarrow> string \<Rightarrow> real" where
  "compute_logic env text =
     (let words = split_ws (lower text)
      in if words = [] then 0
         else (let keyword_hits = length (filter (\<lambda>w. w \<in> set LOGIC_KEYWORDS) words);
                   sentences = max (length (re_split env ''[.!?]+'' text)) 1;
                   density = real keyword_hits / real sentences;
                   score = min (density / 1) 1;
                   numbered_steps = length (re_findall env [] numbered_step_pattern text);
                   score = (if 2 \<le> numbered_steps then min (score + 0.15) 1 else score)
               in score))"

definition compute_format :: "python_env \<Rightarrow> string \<Rightarrow> real" where
  "compute_format env text =
     (if strip text = [] then 0
      else (let structure_hits = length (re_findall env [MULTILINE] STRUCTURE_MARKERS text);
                paragraphs = map strip (filter (\<lambda>p. strip p \<noteq> []) (split_blank text));
                n_paras = max (length paragraphs) 1;
                structure_score = min (real structure_hits / real (max n_paras 3)) 1;
                consistency =
                  (if 2 \<le> n_paras
                   then (let lengths = map length paragraphs;
                             avg_len = real (sum_list lengths) / real n_paras;
                             variance = (\<Sum>l\<leftarrow>lengths. (real l - avg_len) ^ 2) / real n_paras;
                             cv = sqrt variance / max avg_len 1
                         in max (1 - cv) 0)
                   else 0.5)
            in 0.6 * structure_score + 0.4 * consistency))"

definition compute_length :: "string \<Rightarrow> nat \<Rightarrow> nat \<Rightarrow> real" where
  "compute_length text ideal_min ideal_max =
     (let word_count = length (split_ws text)
      in if word_count < ideal_min then max (real word_count / real ideal_min) 0.1
         else if ideal_max < word_count then max (real ideal_max / real word_count) 0.2
         else 1)"

subsection \<open>Reward of one output and of a preference pair\<close>

text \<open>\<open>rubric_scores\<close> is an optional dictionary, given by its items; \<open>d.get(k, 50)\<close>
  reads it.  \<open>truthy\<close> is the test \<open>if rubric_scores:\<close>, which \<open>None\<close> and the empty
  dictionary fail.\<close>

definition rubric_get :: "(string \<times> real) list \<Rightarrow> string \<Rightarrow> real" where
  "rubric_get d k = (case map_of d k of None \<Rightarrow> 50 | Some v \<Rightarrow> v)"

definition truthy :: "(string \<times> real) list option \<Rightarrow> bool" where
  "truthy rubric_scores = (case rubric_scores of None \<Rightarrow> False | Some d \<Rightarrow> d \<noteq> [])"

definition compute_reward ::
  "python_env \<Rightarrow> string \<Rightarrow> string \<Rightarrow> string option \<Rightarrow> (string \<times> real) list option \<Rightarrow> real reward_signal" where
  "compute_reward env output_text prompt reference rubric_scores =
     (if truthy rubric_scores
      then (let d = (case rubric_scores of None \<Rightarrow> [] | Some d \<Rightarrow> d)
            in \<lparr> accuracy = rubric_get d ''accuracy'' / 100,
                 logic = rubric_get d ''logic'' / 100,
                 format_quality = rubric_get d ''format_quality'' / 100,
                 length_reward = rubric_get d ''length'' / 100,
                 explanations = [(''source'', ''rubric_scores'')] \<rparr>)
      else \<lparr> accuracy = compute_accuracy output_text reference,
             logic = compute_logic env output_text,
             format_quality = compute_format env output_text,
             length_reward = compute_length output_text 150 600,
             explanations = [(''source'', ''heuristic'')] \<rparr>)"

subsection \<open>The reward functions in binary64\<close>

text \<open>
  The numbers that \<open>annotate_pair_with_rewards\<close> stores are the doubles the reward
  functions compute, rounded to four decimals.  For them the four heuristics are read a
  second time, operation by operation in binary64: \<open>len(...) / len(...)\<close> is the
  quotient of two ints, \<open>x ** y\<close> is \<open>float_pow\<close> and \<open>sum\<close> over floats is
  \<open>float_sum\<close>.  No division of these functions can raise: every divisor is a maximum
  with a positive number, the size of a non-empty set, or a word count above
  \<open>ideal_max\<close>.
\<close>

definition compute_accuracy_f64 :: "string \<Rightarrow> string option \<Rightarrow> f64" where
  "compute_accuracy_f64 text reference =
     (case reference of
        None \<Rightarrow> Finite (1 / 2)
      | Some ref \<Rightarrow>
          if ref = [] then Finite (1 / 2)
          else (let text_tokens = set (split_ws (lower text));
                    ref_tokens = set (split_ws (lower ref))
                in if ref_tokens = {} then Finite (1 / 2)
                   else (let overlap = int_quot (card (text_tokens \<inter> ref_tokens)) (card ref_tokens)
                         in fmin (fmul overlap (decimal 12 1)) (Finite 1))))"

definition compute_logic_f64 :: "python_env \<Rightarrow> string \<Rightarrow> f64" where
  "compute_logic_f64 env text =
     (let words = split_ws (lower text)
      in if words = [] then Finite 0
         else (let keyword_hits = length (filter (\<lambda>w. w \<in> set LOGIC_KEYWORDS) words);
                   sentences = max (length (re_split env ''[.!?]+'' text)) 1;
                   density = int_quot keyword_hits sentences;
                   score = fmin (fquot density (Finite 1)) (Finite 1);
                   numbered_steps = length (re_findall env [] numbered_step_pattern text);
                   score = (if 2 \<le> numbered_steps
                            then fmin (fadd score (decimal 15 2)) (Finite 1) else score)
               in score))"

definition compute_format_f64 :: "python_env \<Rightarrow> float_env \<Rightarrow> string \<Rightarrow> f64" where
  "compute_format_f64 env fl text =
     (if strip text = [] then Finite 0
      else (let structure_hits = length (re_findall env [MULTILINE] STRUCTURE_MARKERS text);
                paragraphs = map strip (filter (\<lambda>p. strip p \<noteq> []) (split_blank text));
                n_paras = max (length paragraphs) 1;
                structure_score = fmin (int_quot structure_hits (max n_paras 3)) (Finite 1);
                consistency =
                  (if 2 \<le> n_paras
                   then (let lengths = map length paragraphs;
                             avg_len = int_quot (sum_list lengths) n_paras;
                             variance =
                               fquot (float_sum fl
                                        (map (\<lambda>l. float_pow fl (fsub (f64_of_nat l) avg_len) (Finite 2))
                                           lengths))
                                 (f64_of_nat n_paras);
                             cv = fquot (float_pow fl variance (Finite (1 / 2)))
                                    (fmax avg_len (Finite 1))
                         in fmax (fsub (Finite 1) cv) (Finite 0))
                   else Finite (1 / 2))
            in fadd (fmul (decimal 6 1) structure_score) (fmul (decimal 4 1) consistency)))"

definition compute_length_f64 :: "string \<Rightarrow> nat \<Rightarrow> nat \<Rightarrow> f64" where
  "compute_length_f64 text ideal_min ideal_max =
     (let word_count = length (split_ws text)
      in if word_count < ideal_min then fmax (int_quot word_count ideal_min) (decimal 1 1)
         else if ideal_max < word_count then fmax (int_quot ideal_max word_count) (decimal 2 1)
         else Finite 1)"

text \<open>\<open>compute_reward(text, prompt, reference)\<close> as \<open>annotate_pair_with_rewards\<close> calls
  it: without \<open>rubric_scores\<close>, which is the heuristic branch.\<close>

definition compute_reward_f64 ::
  "python_env \<Rightarrow> float_env \<Rightarrow> string \<Rightarrow> string \<Rightarrow> string option \<Rightarrow> f64 reward_signal" where
  "compute_reward_f64 env fl output_text prompt reference =
     \<lparr> accuracy = compute_accuracy_f64 output_text reference,
       logic = compute_logic_f64 env output_text,
       format_quality = compute_format_f64 env fl output_text,
       length_reward = compute_length_f64 output_text 150 600,
       explanations = [(''source'', ''heuristic'')] \<rparr>"

subsection \<open>The composite and the annotation of a preference pair\<close>

definition composite :: "f64 reward_signal \<Rightarrow> f64 \<Rightarrow> f64 \<Rightarrow> f64 \<Rightarrow> f64 \<Rightarrow> f64" where
  "composite self alpha_acc alpha_logic alpha_format alpha_length =
     fadd (fadd (fadd (fmul alpha_acc (accuracy self))
                      (fmul alpha_logic (logic self)))
                (fmul alpha_format (format_quality self)))
          (fmul alpha_length (fmul (length_reward self) (accuracy self)))"

text \<open>\<open>composite()\<close> with the default weights \<open>0.40\<close>, \<open>0.30\<close>, \<open>0.15\<close> and \<open>0.15\<close>.\<close>

definition composite_default :: "f64 reward_signal \<Rightarrow> f64" where
  "composite_default self =
     composite self (decimal 40 2) (decimal 30 2) (decimal 15 2) (decimal 15 2)"

text \<open>The values a dictionary of the reward module holds.\<close>

datatype pyval = Str string | Num f64 | Dict "(string \<times> pyval) list"

definition to_dict :: "f64 reward_signal \<Rightarrow> pyval" where
  "to_dict self =
     Dict [(''accuracy'', Num (py_round (accuracy self) 4)),
           (''logic'', Num (py_round (logic self) 4)),
           (''format_quality'', Num (py_round (format_quality self) 4)),
           (''length'', Num (py_round (length_reward self) 4)),
           (''composite'', Num (py_round (composite_default self) 4)),
           (''explanations'', Dict (map (\<lambda>(k, v). (k, Str v)) (explanations self)))]"

text \<open>A preference pair is a dictionary.  \<open>pair["chosen"]\<close> and \<open>pair["rejected"]\<close>
  raise \<open>KeyError\<close> when the key is missing, and a value that is no string has no
  \<open>lower\<close> method.  The source updates the dictionary in place and returns it; the model
  returns the updated dictionary.\<close>

definition pair_text :: "(string \<rightharpoonup> pyval) \<Rightarrow> string \<Rightarrow> py_error + string" where
  "pair_text pair k =
     (case pair k of
        None \<Rightarrow> Inl KeyError
      | Some (Str t) \<Rightarrow> Inr t
      | Some _ \<Rightarrow> Inl AttributeError)"

definition pair_prompt :: "(string \<rightharpoonup> pyval) \<Rightarrow> string" where
  "pair_prompt pair = (case pair ''prompt'' of Some (Str t) \<Rightarrow> t | _ \<Rightarrow> [])"

definition annotate_pair_with_rewards ::
  "python_env \<Rightarrow> float_env \<Rightarrow> (string \<rightharpoonup> pyval) \<Rightarrow> string option \<Rightarrow>
   py_error + (string \<rightharpoonup> pyval)" where
  "annotate_pair_with_rewards env fl pair reference =
     (case pair_text pair ''chosen'' of
        Inl e \<Rightarrow> Inl e
      | Inr chosen \<Rightarrow>
          (let chosen_reward = compute_reward_f64 env fl chosen (pair_prompt pair) reference
           in case pair_text pair ''rejected'' of
                Inl e \<Rightarrow> Inl e
              | Inr rejected \<Rightarrow>
                  (let rejected_reward = compute_reward_f64 env fl rejected (pair_prompt pair) reference
                   in Inr (pair(''chosen_score'' \<mapsto> Num (py_round (composite_default chosen_reward) 4),
                                ''rejected_score'' \<mapsto> Num (py_round (composite_default rejected_reward) 4),
                                ''reward_details'' \<mapsto>
                                  Dict [(''chosen'', to_dict chosen_reward),
                                        (''rejected'', to_dict rejected_reward),
                                        (''reward_type'', Str ''grpo_multifaceted'')])))))"

section \<open>A matcher for the patterns of the source\<close>

text \<open>
  To evaluate the checks on concrete submissions, this section gives \<open>re\<close>'s behaviour on
  the part of its pattern language that the patterns of the grading engine and of the
  reward module are written in:
  literal characters; \<open>.\<close>; the escapes \<open>\d\<close>, \<open>\s\<close>, \<open>\n\<close>, \<open>\uXXXX\<close> and escaped
  punctuation; character classes of literals, escapes and digit ranges, with a leading
  \<open>-\<close> read as a literal; the quantifiers \<open>?\<close>, \<open>*\<close>, \<open>+\<close>, \<open>{m}\<close>, \<open>{m,}\<close> and \<open>{m,n}\<close>
  on one character set, greedy or, with a following \<open>?\<close>, lazy; capturing groups,
  non-capturing groups \<open>(?:...)\<close> and lookahead \<open>(?=...)\<close>; alternation; the anchors
  \<open>^\<close> and \<open>\Z\<close>; and a leading \<open>(?i)\<close>.  Matching is \<open>re\<close>'s backtracking search: the
  leftmost start, and at that start the first alternative and the longest (for a lazy
  quantifier the shortest) repetition that let the rest of the pattern match.  On
  characters up to code point 255 a letter matches, ignoring case, exactly its two forms.
\<close>

text \<open>One item of a character class.  \<open>AOther\<close> is a character beyond code point 255,
  which no modelled string contains.\<close>

datatype catom = ALit char | ARange char char | ADigit | ASpace | AOther

datatype cset = CAny | COne catom | CClass "catom list"

text \<open>\<open>RRep greedy set lo hi\<close> repeats one character set.\<close>

datatype regex =
    REps
  | RBol
  | REnd
  | RChar cset
  | RRep bool cset nat "nat option"
  | RSeq regex regex
  | RAlt regex regex
  | RGroup nat regex
  | RLook regex

type_synonym captures = "(nat \<times> string) list"

text \<open>The flags in force: \<open>IGNORECASE\<close>, \<open>DOTALL\<close> and \<open>MULTILINE\<close>.\<close>

record match_mode =
  ignorecase :: bool
  dotall :: bool
  multiline :: bool

fun catom_matches :: "bool \<Rightarrow> catom \<Rightarrow> char \<Rightarrow> bool" where
  "catom_matches ic (ALit p) c = (if ic then lower_char c = lower_char p else c = p)"
| "catom_matches ic (ARange lo hi) c = (code_point lo \<le> code_point c \<and> code_point c \<le> code_point hi)"
| "catom_matches ic ADigit c = (48 \<le> code_point c \<and> code_point c \<le> 57)"
| "catom_matches ic ASpace c = isspace c"
| "catom_matches ic AOther c = False"

fun cset_matches :: "match_mode \<Rightarrow> cset \<Rightarrow> char \<Rightarrow> bool" where
  "cset_matches md CAny c = (dotall md \<or> c \<noteq> CHR 0x0A)"
| "cset_matches md (COne a) c = catom_matches (ignorecase md) a c"
| "cset_matches md (CClass as) c = list_ex (\<lambda>a. catom_matches (ignorecase md) a c) as"

text \<open>A greedy repetition tries the longest run first, a lazy one the shortest.\<close>

fun rep_try :: "nat \<Rightarrow> nat \<Rightarrow> string \<Rightarrow> (string \<Rightarrow> 'a option) \<Rightarrow> 'a option" where
  "rep_try 0 lo s k = (if lo = 0 then k s else None)"
| "rep_try (Suc n) lo s k =
     (if Suc n < lo then None
      else case k (drop (Suc n) s) of
             Some r \<Rightarrow> Some r
           | None \<Rightarrow> rep_try n lo s k)"

fun rep_lazy :: "nat \<Rightarrow> nat \<Rightarrow> string \<Rightarrow> (string \<Rightarrow> 'a option) \<Rightarrow> 'a option" where
  "rep_lazy 0 n s k = k (drop n s)"
| "rep_lazy (Suc left) n s k =
     (case k (drop n s) of
        Some r \<Rightarrow> Some r
      | None \<Rightarrow> rep_lazy left (Suc n) s k)"

text \<open>\<open>rmatch md txt r s caps k\<close> matches \<open>r\<close> at the suffix \<open>s\<close> of the text \<open>txt\<close> and
  hands what is left to the continuation \<open>k\<close>.  \<open>^\<close> matches at the start of the text
  and, under \<open>MULTILINE\<close>, after each newline; \<open>\Z\<close> matches at the end of the text.\<close>

fun rmatch ::
  "match_mode \<Rightarrow> string \<Rightarrow> regex \<Rightarrow> string \<Rightarrow> captures \<Rightarrow>
   (string \<Rightarrow> captures \<Rightarrow> (string \<times> captures) option) \<Rightarrow> (string \<times> captures) option" where
  "rmatch md txt REps s caps k = k s caps"
| "rmatch md txt RBol s caps k =
     (let pos = length txt - length s
      in if pos = 0 \<or> (multiline md \<and> txt ! (pos - 1) = CHR 0x0A) then k s caps else None)"
| "rmatch md txt REnd s caps k = (if s = [] then k s caps else None)"
| "rmatch md txt (RChar c) s caps k =
     (case s of [] \<Rightarrow> None
      | x # xs \<Rightarrow> if cset_matches md c x then k xs caps else None)"
| "rmatch md txt (RRep greedy c lo hi) s caps k =
     (let run = length (takeWhile (cset_matches md c) s);
          most = (case hi of None \<Rightarrow> run | Some h \<Rightarrow> min h run)
      in if greedy then rep_try most lo s (\<lambda>rest. k rest caps)
         else if most < lo then None
         else rep_lazy (most - lo) lo s (\<lambda>rest. k rest caps))"
| "rmatch md txt (RSeq a b) s caps k =
     rmatch md txt a s caps (\<lambda>s' caps'. rmatch md txt b s' caps' k)"
| "rmatch md txt (RAlt a b) s caps k =
     (case rmatch md txt a s caps k of
        Some r \<Rightarrow> Some r
      | None \<Rightarrow> rmatch md txt b s caps k)"
| "rmatch md txt (RGroup i r) s caps k =
     rmatch md txt r s caps (\<lambda>s' caps'. k s' ((i, take (length s - length s') s) # caps'))"
| "rmatch md txt (RLook r) s caps k =
     (case rmatch md txt r s caps (\<lambda>s' caps'. Some (s', caps')) of
        None \<Rightarrow> None
      | Some (s', caps') \<Rightarrow> k s caps')"

definition match_at ::
  "match_mode \<Rightarrow> string \<Rightarrow> regex \<Rightarrow> string \<Rightarrow> bool \<Rightarrow> (string \<times> captures) option" where
  "match_at md txt r s must_advance =
     rmatch md txt r s []
       (\<lambda>rest caps. if must_advance \<and> length rest = length s then None else Some (rest, caps))"

text \<open>The leftmost match in the suffix \<open>s\<close>, which starts at offset \<open>off\<close>.\<close>

fun search_from ::
  "match_mode \<Rightarrow> string \<Rightarrow> regex \<Rightarrow> string \<Rightarrow> nat \<Rightarrow> (nat \<times> nat \<times> captures) option" where
  "search_from md txt r [] off =
     (case match_at md txt r [] False of
        Some (rest, caps) \<Rightarrow> Some (off, off, caps)
      | None \<Rightarrow> None)"
| "search_from md txt r (x # xs) off =
     (case match_at md txt r (x # xs) False of
        Some (rest, caps) \<Rightarrow> Some (off, off + (length (x # xs) - length rest), caps)
      | None \<Rightarrow> search_from md txt r xs (Suc off))"

text \<open>All matches from left to right, as \<open>finditer\<close> yields them.  \<open>skip\<close> counts the
  characters still inside the previous match.  After an empty match the same position is
  tried once more for a non-empty match.\<close>

fun finditer_from ::
  "match_mode \<Rightarrow> string \<Rightarrow> regex \<Rightarrow> string \<Rightarrow> nat \<Rightarrow> nat \<Rightarrow> (nat \<times> nat \<times> captures) list" where
  "finditer_from md txt r [] off skip =
     (if 0 < skip then []
      else case match_at md txt r [] False of
             Some (rest, caps) \<Rightarrow> [(off, off, caps)]
           | None \<Rightarrow> [])"
| "finditer_from md txt r (x # xs) off skip =
     (if 0 < skip then finditer_from md txt r xs (Suc off) (skip - 1)
      else case match_at md txt r (x # xs) False of
             None \<Rightarrow> finditer_from md txt r xs (Suc off) 0
           | Some (rest, caps) \<Rightarrow>
               (let n = length (x # xs) - length rest
                in if 0 < n
                   then (off, off + n, caps) # finditer_from md txt r xs (Suc off) (n - 1)
                   else (off, off, caps) #
                        (case match_at md txt r (x # xs) True of
                           None \<Rightarrow> finditer_from md txt r xs (Suc off) 0
                         | Some (rest2, caps2) \<Rightarrow>
                             (let n2 = length (x # xs) - length rest2
                              in (off, off + n2, caps2) #
                                 finditer_from md txt r xs (Suc off) (n2 - 1)))))"

subsection \<open>Reading a pattern\<close>

definition is_digit :: "char \<Rightarrow> bool" where
  "is_digit c = (48 \<le> code_point c \<and> code_point c \<le> 57)"

definition is_alnum :: "char \<Rightarrow> bool" where
  "is_alnum c =
     (let n = code_point c
      in (48 \<le> n \<and> n \<le> 57) \<or> (65 \<le> n \<and> n \<le> 90) \<or> (97 \<le> n \<and> n \<le> 122) \<or> n = 95 \<or> 128 \<le> n)"

text \<open>A decimal number at the head of the string.\<close>

fun read_nat_from :: "nat \<Rightarrow> string \<Rightarrow> nat \<times> string" where
  "read_nat_from acc [] = (acc, [])"
| "read_nat_from acc (c # cs) =
     (if is_digit c then read_nat_from (10 * acc + (code_point c - 48)) cs else (acc, c # cs))"

definition read_nat :: "string \<Rightarrow> (nat \<times> string) option" where
  "read_nat s = (case s of [] \<Rightarrow> None
                 | c # cs \<Rightarrow> if is_digit c then Some (read_nat_from 0 s) else None)"

text \<open>The value of a hexadecimal digit, and of the four hexadecimal digits of \<open>\uXXXX\<close>.\<close>

definition hex_value :: "char \<Rightarrow> nat option" where
  "hex_value c =
     (let n = code_point c
      in if 48 \<le> n \<and> n \<le> 57 then Some (n - 48)
         else if 97 \<le> n \<and> n \<le> 102 then Some (n - 87)
         else if 65 \<le> n \<and> n \<le> 70 then Some (n - 55)
         else None)"

definition read_hex4 :: "string \<Rightarrow> (nat \<times> string) option" where
  "read_hex4 s =
     (case s of
        a # b # c # d # rest \<Rightarrow>
          (case (hex_value a, hex_value b, hex_value c, hex_value d) of
             (Some w, Some x, Some y, Some z) \<Rightarrow> Some (((w * 16 + x) * 16 + y) * 16 + z, rest)
           | _ \<Rightarrow> None)
      | _ \<Rightarrow> None)"

text \<open>The characters beyond code point 255 that, ignoring case, match a character up
  to 255: dotted capital and dotless small i, long s, capital y with diaeresis, capital
  and small mu, capital sharp s, the Kelvin sign and the Angstrom sign.\<close>

definition cased_with_latin1 :: "nat list" where
  "cased_with_latin1 = [304, 305, 383, 376, 924, 956, 7838, 8490, 8491]"

text \<open>What follows a backslash: \<open>d\<close>, \<open>s\<close>, \<open>n\<close>, \<open>uXXXX\<close> or a punctuation character.\<close>

definition read_escape :: "string \<Rightarrow> (catom \<times> string) option" where
  "read_escape s =
     (case s of [] \<Rightarrow> None
      | c # cs \<Rightarrow>
          if c = CHR ''d'' then Some (ADigit, cs)
          else if c = CHR ''s'' then Some (ASpace, cs)
          else if c = CHR ''n'' then Some (ALit (CHR 0x0A), cs)
          else if c = CHR ''u'' then
            (case read_hex4 cs of None \<Rightarrow> None
             | Some (n, rest) \<Rightarrow>
                 if n < 256 then Some (ALit (char_of n), rest)
                 else if n \<in> set cased_with_latin1 then None
                 else Some (AOther, rest))
          else if is_alnum c then None
          else Some (ALit c, cs))"

text \<open>The items of a class up to the closing bracket.  A range runs from one digit to
  another.\<close>

fun read_class :: "nat \<Rightarrow> string \<Rightarrow> (catom list \<times> string) option" where
  "read_class 0 s = None"
| "read_class (Suc fuel) [] = None"
| "read_class (Suc fuel) (c # cs) =
     (if c = CHR '']'' then Some ([], cs)
      else if c = CHR ''-'' \<or> c = CHR ''^'' \<or> c = CHR ''['' then None
      else if c = CHR 0x5C then
        (case read_escape cs of None \<Rightarrow> None
         | Some (a, cs') \<Rightarrow>
             (case read_class fuel cs' of None \<Rightarrow> None
              | Some (as, rest) \<Rightarrow> Some (a # as, rest)))
      else (case cs of
              d # e # cs' \<Rightarrow>
                if d = CHR ''-'' \<and> e \<noteq> CHR '']'' then
                  (if is_digit c \<and> is_digit e \<and> code_point c \<le> code_point e
                   then (case read_class fuel cs' of None \<Rightarrow> None
                         | Some (as, rest) \<Rightarrow> Some (ARange c e # as, rest))
                   else None)
                else (case read_class fuel cs of None \<Rightarrow> None
                      | Some (as, rest) \<Rightarrow> Some (ALit c # as, rest))
            | _ \<Rightarrow> (case read_class fuel cs of None \<Rightarrow> None
                    | Some (as, rest) \<Rightarrow> Some (ALit c # as, rest))))"

text \<open>One character set: \<open>.\<close>, a class, an escape or a literal character.\<close>

definition read_cset :: "string \<Rightarrow> (cset \<times> string) option" where
  "read_cset s =
     (case s of [] \<Rightarrow> None
      | c # cs \<Rightarrow>
          if c = CHR ''.'' then Some (CAny, cs)
          else if c = CHR ''['' then
            (case cs of
               d # cs' \<Rightarrow>
                 if d = CHR ''-'' then
                   (case read_class (Suc (length cs')) cs' of None \<Rightarrow> None
                    | Some (as, rest) \<Rightarrow> Some (CClass (ALit d # as), rest))
                 else
                   (case read_class (Suc (length cs)) cs of None \<Rightarrow> None
                    | Some (as, rest) \<Rightarrow> if as = [] then None else Some (CClass as, rest))
             | [] \<Rightarrow> None)
          else if c = CHR 0x5C then
            (case read_escape cs of None \<Rightarrow> None | Some (a, cs') \<Rightarrow> Some (COne a, cs'))
          else if c \<in> set ''*+?{}()|^$]'' then None
          else Some (COne (ALit c), cs))"

text \<open>The quantifier after a character set: \<open>?\<close>, \<open>*\<close>, \<open>+\<close>, \<open>{m}\<close>, \<open>{m,}\<close> or
  \<open>{m,n}\<close>; none gives bounds \<open>None\<close>.\<close>

definition read_bounds :: "string \<Rightarrow> ((nat \<times> nat option) option \<times> string) option" where
  "read_bounds s =
     (case s of [] \<Rightarrow> Some (None, [])
      | c # cs \<Rightarrow>
          if c = CHR ''?'' then Some (Some (0, Some 1), cs)
          else if c = CHR ''*'' then Some (Some (0, None), cs)
          else if c = CHR ''+'' then Some (Some (1, None), cs)
          else if c = CHR ''{'' then
            (case read_nat cs of None \<Rightarrow> None
             | Some (m, rest) \<Rightarrow>
                 (case rest of
                    d # rest' \<Rightarrow>
                      if d = CHR ''}'' then Some (Some (m, Some m), rest')
                      else if d = CHR '','' then
                        (case rest' of
                           e # rest'' \<Rightarrow>
                             if e = CHR ''}'' then Some (Some (m, None), rest'')
                             else (case read_nat rest' of None \<Rightarrow> None
                                   | Some (n, rest3) \<Rightarrow>
                                       (case rest3 of
                                          f # rest4 \<Rightarrow>
                                            if f = CHR ''}'' \<and> m \<le> n
                                            then Some (Some (m, Some n), rest4)
                                            else None
                                        | [] \<Rightarrow> None))
                         | [] \<Rightarrow> None)
                      else None
                  | [] \<Rightarrow> None))
          else Some (None, s))"

definition quantifier_ahead :: "string \<Rightarrow> bool" where
  "quantifier_ahead s = (case s of [] \<Rightarrow> False | c # cs \<Rightarrow> c \<in> set ''?*+{'')"

text \<open>A \<open>?\<close> after a quantifier makes it lazy.\<close>

definition read_lazy :: "string \<Rightarrow> bool \<times> string" where
  "read_lazy s = (case s of [] \<Rightarrow> (True, [])
                  | c # cs \<Rightarrow> if c = CHR ''?'' then (False, cs) else (True, s))"

text \<open>The closing parenthesis of a group; a group takes no quantifier.\<close>

definition close_group ::
  "(regex \<Rightarrow> regex) \<Rightarrow> (regex \<times> nat \<times> string) option \<Rightarrow> (regex \<times> nat \<times> string) option" where
  "close_group wrap res =
     (case res of None \<Rightarrow> None
      | Some (r, g, rest) \<Rightarrow>
          (case rest of [] \<Rightarrow> None
           | e # rest' \<Rightarrow>
               if e = CHR '')'' \<and> \<not> quantifier_ahead rest' then Some (wrap r, g, rest')
               else None))"

text \<open>Recursive descent with fuel: alternatives, sequences, items.  The number is the
  index of the last capturing group opened so far.\<close>

fun read_alt :: "nat \<Rightarrow> nat \<Rightarrow> string \<Rightarrow> (regex \<times> nat \<times> string) option"
  and read_seq :: "nat \<Rightarrow> nat \<Rightarrow> string \<Rightarrow> (regex \<times> nat \<times> string) option"
  and read_item :: "nat \<Rightarrow> nat \<Rightarrow> string \<Rightarrow> (regex \<times> nat \<times> string) option" where
  "read_alt 0 g s = None"
| "read_alt (Suc fuel) g s =
     (case read_seq fuel g s of None \<Rightarrow> None
      | Some (r, g', rest) \<Rightarrow>
          (case rest of
             c # rest' \<Rightarrow>
               if c = CHR ''|'' then
                 (case read_alt fuel g' rest' of None \<Rightarrow> None
                  | Some (r2, g'', rest'') \<Rightarrow> Some (RAlt r r2, g'', rest''))
               else Some (r, g', rest)
           | [] \<Rightarrow> Some (r, g', rest)))"
| "read_seq 0 g s = None"
| "read_seq (Suc fuel) g s =
     (case s of [] \<Rightarrow> Some (REps, g, s)
      | c # cs \<Rightarrow>
          if c = CHR ''|'' \<or> c = CHR '')'' then Some (REps, g, s)
          else (case read_item fuel g s of None \<Rightarrow> None
                | Some (r, g', rest) \<Rightarrow>
                    (case read_seq fuel g' rest of None \<Rightarrow> None
                     | Some (r2, g'', rest') \<Rightarrow> Some (RSeq r r2, g'', rest'))))"
| "read_item 0 g s = None"
| "read_item (Suc fuel) g s =
     (case s of [] \<Rightarrow> None
      | c # cs \<Rightarrow>
          if c = CHR ''('' then
            (if prefix ''?:'' cs then close_group (\<lambda>r. r) (read_alt fuel g (drop 2 cs))
             else if prefix ''?='' cs then close_group RLook (read_alt fuel g (drop 2 cs))
             else if prefix ''?'' cs then None
             else close_group (RGroup (Suc g)) (read_alt fuel (Suc g) cs))
          else if c = CHR ''^'' then
            (if quantifier_ahead cs then None else Some (RBol, g, cs))
          else if prefix (BS @ ''Z'') s then
            (if quantifier_ahead (drop 2 s) then None else Some (REnd, g, drop 2 s))
          else (case read_cset s of None \<Rightarrow> None
                | Some (cs', rest) \<Rightarrow>
                    (case read_bounds rest of None \<Rightarrow> None
                     | Some (b, rest') \<Rightarrow>
                         (case b of
                            None \<Rightarrow> Some (RChar cs', g, rest')
                          | Some (lo, hi) \<Rightarrow>
                              (case read_lazy rest' of
                                 (greedy, rest'') \<Rightarrow>
                                   if quantifier_ahead rest'' then None
                                   else Some (RRep greedy cs' lo hi, g, rest''))))))"

record compiled =
  c_ignorecase :: bool
  c_regex :: regex
  c_groups :: nat

text \<open>A pattern of the fragment, with its leading \<open>(?i)\<close> if any; \<open>None\<close> for a pattern
  outside the fragment.\<close>

definition compile :: "string \<Rightarrow> compiled option" where
  "compile p =
     (let ic = prefix ''(?i)'' p;
          body = (if ic then drop 4 p else p)
      in case read_alt (3 * length body + 3) 0 body of
           Some (r, g, []) \<Rightarrow> Some \<lparr> c_ignorecase = ic, c_regex = r, c_groups = g \<rparr>
         | _ \<Rightarrow> None)"

definition mode_of :: "compiled \<Rightarrow> re_flag list \<Rightarrow> match_mode" where
  "mode_of c flags =
     \<lparr> ignorecase = (c_ignorecase c \<or> IGNORECASE \<in> set flags),
       dotall = (DOTALL \<in> set flags),
       multiline = (MULTILINE \<in> set flags) \<rparr>"

definition group_texts :: "nat \<Rightarrow> captures \<Rightarrow> string list" where
  "group_texts n caps = map (\<lambda>i. case map_of caps i of None \<Rightarrow> [] | Some t \<Rightarrow> t) [1 ..< Suc n]"

definition py_search :: "re_flag list \<Rightarrow> string \<Rightarrow> string \<Rightarrow> re_match option" where
  "py_search flags pattern text =
     (case compile pattern of None \<Rightarrow> None
      | Some c \<Rightarrow>
          (case search_from (mode_of c flags) text (c_regex c) text 0 of
             None \<Rightarrow> None
           | Some (s, e, caps) \<Rightarrow>
               Some \<lparr> m_start = s, m_end = e, m_groups = group_texts (c_groups c) caps \<rparr>))"

definition py_finditer :: "re_flag list \<Rightarrow> string \<Rightarrow> string \<Rightarrow> (nat \<times> nat \<times> string list) list" where
  "py_finditer flags pattern text =
     (case compile pattern of None \<Rightarrow> []
      | Some c \<Rightarrow>
          map (\<lambda>(s, e, caps). (s, e, group_texts (c_groups c) caps))
            (finditer_from (mode_of c flags) text (c_regex c) text 0 0))"

text \<open>\<open>findall\<close> yields the matched text, or the text of the group when the pattern has
  exactly one group.  (For several groups Python yields tuples; the source only counts
  them.)\<close>

definition py_findall :: "re_flag list \<Rightarrow> string \<Rightarrow> string \<Rightarrow> string list" where
  "py_findall flags pattern text =
     map (\<lambda>(s, e, groups). case groups of [g] \<Rightarrow> g | _ \<Rightarrow> take (e - s) (drop s text))
       (py_finditer flags pattern text)"

fun split_at_spans :: "string \<Rightarrow> nat \<Rightarrow> (nat \<times> nat \<times> string list) list \<Rightarrow> string list" where
  "split_at_spans text prev [] = [drop prev text]"
| "split_at_spans text prev ((s, e, groups) # spans) =
     take (s - prev) (drop prev text) # groups @ split_at_spans text e spans"

definition py_split :: "string \<Rightarrow> string \<Rightarrow> string list" where
  "py_split pattern text = split_at_spans text 0 (py_finditer [] pattern text)"

text \<open>The runtime with this matcher.  The patterns of the source are in the fragment;
  on a pattern outside it \<open>compile\<close> gives \<open>None\<close> and \<open>py\<close> reports no match.  Sets are
  iterated in the order given.\<close>

definition py :: python_env where
  "py = \<lparr> re_search = py_search, re_findall = py_findall, re_split = py_split,
          set_order = (\<lambda>xs. xs) \<rparr>"

section \<open>Score range\<close>

definition in_range :: "real \<times> string \<Rightarrow> bool" where
  "in_range r = (0 \<le> fst r \<and> fst r \<le> 100)"

section \<open>Verified properties\<close>

subsection \<open>Pass/fail verdict\<close>

text \<open>
  Claim C1.  Whatever the overall score, a non-empty list of critical failures makes
  \<open>determine_pass_fail\<close> return false; with an empty list it returns true exactly when
  the score reaches the rubric's \<open>pass_threshold\<close>, which is 70 when the rubric has none.
\<close>

theorem determine_pass_fail_veto:
  "(failures \<noteq> [] \<longrightarrow> \<not> determine_pass_fail (GradingEngine r) overall_score failures)
   \<and> (determine_pass_fail (GradingEngine r) overall_score [] \<longleftrightarrow>
        (case rubric_pass_threshold r of None \<Rightarrow> 70 | Some t \<Rightarrow> t) \<le> overall_score)"
  by (simp add: determine_pass_fail_def GradingEngine_def)

theorem determine_pass_fail_veto_witness:
  "[''Contains forward-looking guarantees''] \<noteq> []
   \<and> \<not> determine_pass_fail
         (GradingEngine \<lparr> rubric_dimensions = None, rubric_critical_failures = None,
                           rubric_pass_threshold = None \<rparr>)
         100 [''Contains forward-looking guarantees'']
   \<and> determine_pass_fail
         (GradingEngine \<lparr> rubric_dimensions = None, rubric_critical_failures = None,
                           rubric_pass_threshold = None \<rparr>) 70 []
   \<and> \<not> determine_pass_fail
         (GradingEngine \<lparr> rubric_dimensions = None, rubric_critical_failures = None,
                           rubric_pass_threshold = Some 80 \<rparr>) 70 []"
  using determine_pass_fail_veto
          [of "[''Contains forward-looking guarantees'']"
              "\<lparr> rubric_dimensions = None, rubric_critical_failures = None,
                 rubric_pass_threshold = None \<rparr>" 100]
        determine_pass_fail_veto
          [of "[]" "\<lparr> rubric_dimensions = None, rubric_critical_failures = None,
                      rubric_pass_threshold = None \<rparr>" 70]
        determine_pass_fail_veto
          [of "[]" "\<lparr> rubric_dimensions = None, rubric_critical_failures = None,
                      rubric_pass_threshold = Some 80 \<rparr>" 70]
  by simp

subsection \<open>Score range of the dimension scorers\<close>

lemma in_range_final: "in_range (Let (min 100 (max 0 s)) (\<lambda>score. (score, fb)))"
  by (simp add: in_range_def)

lemma in_range_Let: "(\<And>x. in_range (f x)) \<Longrightarrow> in_range (Let v f)"
  by (simp add: Let_def)

lemma in_range_case_prod: "(\<And>a b. in_range (f a b)) \<Longrightarrow> in_range (case_prod f p)"
  by (cases p) simp

lemmas in_range_intros = in_range_final in_range_Let in_range_case_prod

lemma score_factual_accuracy_range: "in_range (score_factual_accuracy env ai_output scen dimension)"
  unfolding score_factual_accuracy_def by (intro in_range_intros)

lemma score_analytical_rigor_range: "in_range (score_analytical_rigor env ai_output scen dimension)"
  unfolding score_analytical_rigor_def by (intro in_range_intros)

lemma score_risk_assessment_range: "in_range (score_risk_assessment env ai_output scen dimension)"
  unfolding score_risk_assessment_def by (intro in_range_intros)

lemma score_evidence_quality_range: "in_range (score_evidence_quality env ai_output scen dimension)"
  unfolding score_evidence_quality_def by (intro in_range_intros)

lemma score_completeness_range: "in_range (score_completeness env ai_output scen dimension)"
  unfolding score_completeness_def by (intro in_range_intros)

lemma score_alpha_environment_range: "in_range (score_alpha_environment env ai_output scen dimension)"
  unfolding score_alpha_environment_def by (intro in_range_intros)

lemma score_risk_treatment_range: "in_range (score_risk_treatment env ai_output scen dimension)"
  unfolding score_risk_treatment_def by (intro in_range_intros)

lemma score_terminal_value_range: "in_range (score_terminal_value env ai_output scen dimension)"
  unfolding score_terminal_value_def by (intro in_range_intros)

lemma score_cyclical_structural_range:
  "in_range (score_cyclical_structural env ai_output scen dimension)"
  unfolding score_cyclical_structural_def by (intro in_range_intros)

lemma score_risk_classification_range:
  "in_range (score_risk_classification env ai_output scen dimension)"
  unfolding score_risk_classification_def by (intro in_range_intros)

lemma score_hedging_logic_range: "in_range (score_hedging_logic env ai_output scen dimension)"
  unfolding score_hedging_logic_def by (intro in_range_intros)

lemma score_sizing_methodology_range:
  "in_range (score_sizing_methodology env ai_output scen dimension)"
  unfolding score_sizing_methodology_def by (intro in_range_intros)

lemma score_risk_placement_range: "in_range (score_risk_placement env ai_output scen dimension)"
  unfolding score_risk_placement_def by (intro in_range_intros)

lemma score_uncertainty_judgment_range:
  "in_range (score_uncertainty_judgment env ai_output scen dimension)"
  unfolding score_uncertainty_judgment_def by (intro in_range_intros)

lemma score_attribution_discipline_range:
  "in_range (score_attribution_discipline env ai_output scen dimension)"
  unfolding score_attribution_discipline_def by (intro in_range_intros)

lemma score_hypothesis_testing_range:
  "in_range (score_hypothesis_testing env ai_output scen dimension)"
  unfolding score_hypothesis_testing_def by (intro in_range_intros)

lemma score_contextual_evaluation_range:
  "in_range (score_contextual_evaluation env ai_output scen dimension)"
  unfolding score_contextual_evaluation_def by (intro in_range_intros)

lemmas scorer_ranges =
  score_factual_accuracy_range score_analytical_rigor_range score_risk_assessment_range
  score_evidence_quality_range score_completeness_range score_alpha_environment_range
  score_risk_treatment_range score_terminal_value_range score_cyclical_structural_range
  score_risk_classification_range score_hedging_logic_range score_sizing_methodology_range
  score_risk_placement_range score_uncertainty_judgment_range
  score_attribution_discipline_range score_hypothesis_testing_range
  score_contextual_evaluation_range

lemma score_dimension_in_range: "in_range (score_dimension env ai_output scen dimension False)"
  unfolding score_dimension_def Let_def
  by (simp add: scorer_ranges) (simp add: in_range_def)

text \<open>
  Claim C4.  Without the LLM path, the score \<open>_score_dimension\<close> returns lies between 0
  and 100, for every runtime, submission, scenario and dimension: whichever of the
  seventeen scorers the dimension's id selects, and for the default of an unknown id.
\<close>

theorem score_dimension_clamped:
  "0 \<le> fst (score_dimension env ai_output scen dimension False)
   \<and> fst (score_dimension env ai_output scen dimension False) \<le> 100"
  using score_dimension_in_range [of env ai_output scen dimension] by (simp add: in_range_def)

theorem score_dimension_clamped_witness:
  "0 \<le> fst (score_dimension py ''Buy this stock.''
              \<lparr> key_facts = None, scenario_evaluation_criteria = None \<rparr>
              \<lparr> dim_id = ''completeness'', dim_weight = Some 100 \<rparr> False)
   \<and> fst (score_dimension py ''Buy this stock.''
              \<lparr> key_facts = None, scenario_evaluation_criteria = None \<rparr>
              \<lparr> dim_id = ''completeness'', dim_weight = Some 100 \<rparr> False) \<le> 100"
  using score_dimension_clamped
          [of py "''Buy this stock.''" "\<lparr> key_facts = None, scenario_evaluation_criteria = None \<rparr>"
              "\<lparr> dim_id = ''completeness'', dim_weight = Some 100 \<rparr>"]
  by simp

text \<open>
  Claim C5.  Without the LLM path, a dimension whose id is none of the seventeen ids of
  the dispatch scores exactly 70 with the feedback \<open>Default score applied\<close>; the result
  is a value, not an error, whatever the submission and the scenario.
\<close>

theorem score_dimension_unknown_id:
  "dim_id dimension \<notin> set recognized_ids \<Longrightarrow>
   score_dimension env ai_output scen dimension False = (70, ''Default score applied'')"
  by (simp add: score_dimension_def recognized_ids_def Let_def)

theorem score_dimension_unknown_id_witness:
  "''originality'' \<notin> set recognized_ids
   \<and> score_dimension py ''Buy.'' \<lparr> key_facts = None, scenario_evaluation_criteria = None \<rparr>
        \<lparr> dim_id = ''originality'', dim_weight = Some 1 \<rparr> False
      = (70, ''Default score applied'')"
proof -
  have h: "dim_id \<lparr> dim_id = ''originality'', dim_weight = Some (1::real) \<rparr> \<notin> set recognized_ids"
    by (simp add: recognized_ids_def)
  show ?thesis
    using h score_dimension_unknown_id [OF h, of py]
    by simp
qed

subsection \<open>Risk-section check\<close>

lemma risk_section_loop_iff:
  "risk_section_loop env t ps \<longleftrightarrow>
     (\<exists>p\<in>set ps. \<exists>m. re_search env [] p t = Some m
                      \<and> 50 < length (strip (take 200 (drop (m_end m) t))))"
  by (induction ps) (auto simp: Let_def split: option.splits)

lemma has_risk_section_iff:
  "has_risk_section env t \<longleftrightarrow>
     (\<exists>p\<in>set risk_patterns. \<exists>m. re_search env [] p t = Some m
                      \<and> 50 < length (strip (take 200 (drop (m_end m) t))))"
  by (simp add: has_risk_section_def risk_section_loop_iff)

lemma length_strip_le: "length (strip s) \<le> length s"
proof -
  have "length (strip s) \<le> length (dropWhile isspace s)"
    unfolding strip_def
    using length_dropWhile_le [of isspace "rev (dropWhile isspace s)"] by simp
  also have "\<dots> \<le> length s" by (rule length_dropWhile_le)
  finally show ?thesis .
qed

lemma short_text_has_no_risk_section: "length t \<le> 50 \<Longrightarrow> \<not> has_risk_section env t"
proof -
  assume short: "length t \<le> 50"
  { fix m :: re_match
    have "length (strip (take 200 (drop (m_end m) t))) \<le> length (take 200 (drop (m_end m) t))"
      by (rule length_strip_le)
    also have "\<dots> \<le> length t" by simp
    finally have "length (strip (take 200 (drop (m_end m) t))) \<le> 50" using short by simp }
  then show ?thesis by (auto simp: has_risk_section_iff not_less)
qed

lemma header_alone_has_no_risk_section: "\<not> has_risk_section env ''## Risks''"
  by (rule short_text_has_no_risk_section) simp

lemma missing_risk_section_failure:
  "''Missing or inadequate risk assessment section'' \<in> set (check_critical_failures env t scen)
   \<longleftrightarrow> \<not> has_risk_section env t"
  by (auto simp: check_critical_failures_def)

lemma risk_patterns_compile: "list_all (\<lambda>p. compile p \<noteq> None) risk_patterns"
  by code_simp

lemma fifty_characters_rejected:
  "has_risk_section py (''## Risks'' @ [CHR 0x0A] @ replicate 50 CHR ''x'') = False"
  by code_simp

lemma fifty_one_characters_accepted:
  "has_risk_section py (''## Risks'' @ [CHR 0x0A] @ replicate 51 CHR ''x'') = True"
  by code_simp

lemma header_match:
  "py_search [] ''(?i)## ?risks?'' (''## Risks'' @ [CHR 0x0A] @ replicate 50 CHR ''x'')
   = Some \<lparr> m_start = 0, m_end = 8, m_groups = [] \<rparr>"
  by code_simp

text \<open>
  Claim C6.  The check evaluated on the header \<open>## Risks\<close>, a newline and fifty
  characters of body text: the first pattern matches the header, the 200 characters after
  the match strip to exactly fifty characters, and the check fails, so the failure
  \<open>Missing or inadequate risk assessment section\<close> is reported.  With fifty-one
  characters of body text the check holds; for the header alone it fails.
\<close>

theorem risk_section_needs_more_than_fifty_characters:
  "py_search [] ''(?i)## ?risks?'' (''## Risks'' @ [CHR 0x0A] @ replicate 50 CHR ''x'')
     = Some \<lparr> m_start = 0, m_end = 8, m_groups = [] \<rparr>
   \<and> length (strip (take 200 (drop 8 (''## Risks'' @ [CHR 0x0A] @ replicate 50 CHR ''x'')))) = 50
   \<and> \<not> has_risk_section py (''## Risks'' @ [CHR 0x0A] @ replicate 50 CHR ''x'')
   \<and> ''Missing or inadequate risk assessment section''
       \<in> set (check_critical_failures py (''## Risks'' @ [CHR 0x0A] @ replicate 50 CHR ''x'')
                \<lparr> key_facts = None, scenario_evaluation_criteria = None \<rparr>)
   \<and> has_risk_section py (''## Risks'' @ [CHR 0x0A] @ replicate 51 CHR ''x'')
   \<and> \<not> has_risk_section py ''## Risks''"
proof -
  have "length (strip (take 200 (drop 8 (''## Risks'' @ [CHR 0x0A] @ replicate 50 CHR ''x'')))) = 50"
    by code_simp
  then show ?thesis
    using header_match fifty_characters_rejected fifty_one_characters_accepted
      header_alone_has_no_risk_section [of py]
    by (simp only: missing_risk_section_failure simp_thms)
qed

subsection \<open>Hallucination check\<close>








subsection \<open>Empty rubric scores\<close>

text \<open>
  Claim C10.  \<open>compute_reward\<close> with an empty dictionary of rubric scores returns the
  same reward signal as without rubric scores: the heuristic one, marked as such.  The
  rubric branch, which reads each axis with the default 50 and divides by 100, is taken
  exactly for a dictionary that is not empty.
\<close>

theorem compute_reward_empty_rubric_scores:
  "compute_reward env output_text prompt reference (Some [])
     = compute_reward env output_text prompt reference None
   \<and> explanations (compute_reward env output_text prompt reference (Some []))
       = [(''source'', ''heuristic'')]
   \<and> (d \<noteq> [] \<longrightarrow>
        compute_reward env output_text prompt reference (Some d)
          = \<lparr> accuracy = rubric_get d ''accuracy'' / 100,
              logic = rubric_get d ''logic'' / 100,
              format_quality = rubric_get d ''format_quality'' / 100,
              length_reward = rubric_get d ''length'' / 100,
              explanations = [(''source'', ''rubric_scores'')] \<rparr>)"
  by (simp add: compute_reward_def truthy_def)

theorem compute_reward_empty_rubric_scores_witness:
  "[(''accuracy'', 80::real)] \<noteq> []
   \<and> compute_reward py ''Buy.'' ''Rate the stock'' None (Some [(''accuracy'', 80)])
       = \<lparr> accuracy = 0.8, logic = 0.5, format_quality = 0.5, length_reward = 0.5,
           explanations = [(''source'', ''rubric_scores'')] \<rparr>
   \<and> compute_reward py [] ''Rate the stock'' None (Some [])
       = compute_reward py [] ''Rate the stock'' None None
   \<and> logic (compute_reward py [] ''Rate the stock'' None (Some [])) = 0"
proof -
  have "logic (compute_reward py [] ''Rate the stock'' None None) = 0"
    by (simp add: compute_reward_def truthy_def compute_logic_def split_ws_def lower_def)
  then show ?thesis
    using compute_reward_empty_rubric_scores [of py "''Buy.''" "''Rate the stock''" None "[(''accuracy'', 80)]"]
      compute_reward_empty_rubric_scores [of py "[]" "''Rate the stock''" None "[]"]
    by (simp add: rubric_get_def)
qed

end
